theory Spec2Isabelle
  imports Complex_Main
begin

section \<open>JavaScript values\<close>

text \<open>
  A number is a binary64 value: a finite one is the rational it denotes (\<open>Finite 0\<close> is
  \<^verbatim>\<open>+0\<close>), and there are \<^verbatim>\<open>-0\<close>, the two infinities and \<^verbatim>\<open>NaN\<close>.
\<close>

datatype number = Finite rat | NegZero | PosInfinity | NegInfinity | NaN

text \<open>
  The values that travel through \<^verbatim>\<open>index.js\<close>: what a JSON response body parses to,
  \<^verbatim>\<open>undefined\<close>, which a read of a missing property gives, and the numbers that
  arithmetic gives. An object is its list of own properties; a property is looked up by
  name.
\<close>

datatype jsval =
    JUndefined
  | JNull
  | JBool bool
  | JNum number
  | JStr string
  | JArr "jsval list"
  | JObj "(string \<times> jsval) list"

text \<open>A thrown value: every error this program can throw carries a \<^verbatim>\<open>message\<close> string.\<close>

datatype js_error = Error string

fun message :: "js_error \<Rightarrow> string" where
  "message (Error m) = m"

text \<open>ToBoolean, as \<^verbatim>\<open>!x\<close>, \<^verbatim>\<open>x && y\<close> and \<^verbatim>\<open>x || y\<close> apply it.\<close>

fun truthy :: "jsval \<Rightarrow> bool" where
  "truthy JUndefined = False"
| "truthy JNull = False"
| "truthy (JBool b) = b"
| "truthy (JNum n) = (n \<noteq> Finite 0 \<and> n \<noteq> NegZero \<and> n \<noteq> NaN)"
| "truthy (JStr s) = (s \<noteq> [])"
| "truthy (JArr xs) = True"
| "truthy (JObj kvs) = True"

text \<open>\<^verbatim>\<open>a || b\<close>\<close>

definition js_or :: "jsval \<Rightarrow> jsval \<Rightarrow> jsval" where
  "js_or a b = (if truthy a then a else b)"

text \<open>
  \<^verbatim>\<open>v.k\<close> where \<^verbatim>\<open>v\<close> is neither \<^verbatim>\<open>undefined\<close> nor \<^verbatim>\<open>null\<close>. None of the property
  names this program reads is inherited from a prototype, so only an object's own
  properties answer; every other value gives \<^verbatim>\<open>undefined\<close>.
\<close>

fun own_prop :: "jsval \<Rightarrow> string \<Rightarrow> jsval" where
  "own_prop (JObj kvs) k = (case map_of kvs k of None \<Rightarrow> JUndefined | Some v \<Rightarrow> v)"
| "own_prop v k = JUndefined"

text \<open>The TypeError of a property read on \<^verbatim>\<open>undefined\<close> or \<^verbatim>\<open>null\<close> (message as V8 words it).\<close>

definition cannot_read :: "string \<Rightarrow> string \<Rightarrow> js_error" where
  "cannot_read what k =
     Error (''Cannot read properties of '' @ what @ '' (reading '' @ [CHR 0x27] @ k @ [CHR 0x27] @ '')'')"

text \<open>\<^verbatim>\<open>v.k\<close> in general: it throws on \<^verbatim>\<open>undefined\<close> and \<^verbatim>\<open>null\<close>.\<close>

fun get_prop :: "jsval \<Rightarrow> string \<Rightarrow> js_error + jsval" where
  "get_prop JUndefined k = Inl (cannot_read ''undefined'' k)"
| "get_prop JNull k = Inl (cannot_read ''null'' k)"
| "get_prop v k = Inr (own_prop v k)"

section \<open>The request\<close>

text \<open>
  What Express hands the handler as \<^verbatim>\<open>req.query.record_id\<close> when the query has the
  parameter: a string for \<^verbatim>\<open>?record_id=x\<close>, an array when the key is repeated or
  bracketed (\<^verbatim>\<open>?record_id=&record_id=\<close>, \<^verbatim>\<open>?record_id[]=\<close>), an object for
  \<^verbatim>\<open>?record_id[k]=x\<close>.
\<close>

datatype query = QString string | QArray "query list" | QObject "(string \<times> query) list"

text \<open>ToBoolean of such a value: only the empty string is falsy.\<close>

fun query_truthy :: "query \<Rightarrow> bool" where
  "query_truthy (QString s) = (s \<noteq> [])"
| "query_truthy (QArray xs) = True"
| "query_truthy (QObject kvs) = True"

text \<open>
  Such a value inside a template literal: a string is itself, an array is its elements
  joined with commas, an object is \<^verbatim>\<open>[object Object]\<close>.
\<close>

fun commas :: "string list \<Rightarrow> string" where
  "commas [] = []"
| "commas [x] = x"
| "commas (x # y # ys) = x @ '','' @ commas (y # ys)"

fun query_string :: "query \<Rightarrow> string" where
  "query_string (QString s) = s"
| "query_string (QArray xs) = commas (map query_string xs)"
| "query_string (QObject kvs) = ''[object Object]''"

section \<open>The process and its surroundings\<close>

text \<open>\<^verbatim>\<open>process.env\<close>: a variable is a string, or \<^verbatim>\<open>undefined\<close> when it is not set.\<close>

record config =
  SUGAR_URL :: "string option"
  SUGAR_USERNAME :: "string option"
  SUGAR_PASSWORD :: "string option"
  SUGAR_PLATFORM :: "string option"
  USPS_CLIENT_ID :: "string option"
  USPS_CLIENT_SECRET :: "string option"

text \<open>An environment variable as a value, and inside a template literal.\<close>

fun env_val :: "string option \<Rightarrow> jsval" where
  "env_val None = JUndefined"
| "env_val (Some s) = JStr s"

fun env_tmpl :: "string option \<Rightarrow> string" where
  "env_tmpl None = ''undefined''"
| "env_tmpl (Some s) = s"

text \<open>
  A header value is a value passed as it is, or the template
  \<^verbatim>\<open>`Bearer ${token}`\<close> around one.
\<close>

datatype header = Raw jsval | Bearer jsval

text \<open>
  The three axios calls of the program: \<^verbatim>\<open>axios.post(url, data)\<close>,
  \<^verbatim>\<open>axios.get(url, {headers, params})\<close> (\<^verbatim>\<open>params\<close> is \<^verbatim>\<open>undefined\<close> when not given),
  \<^verbatim>\<open>axios.put(url, data, {headers})\<close>.
\<close>

datatype request =
    Post string jsval
  | Get string "(string \<times> header) list" jsval
  | Put string jsval "(string \<times> header) list"

text \<open>
  What lies outside the program text.
  \<^item> \<^verbatim>\<open>dateNow n\<close> is what the \<open>n\<close>-th reading of \<^verbatim>\<open>Date.now()\<close> returns, a whole number of
    milliseconds.
  \<^item> \<^verbatim>\<open>axios n rq\<close> is the outcome of request \<^verbatim>\<open>rq\<close> when \<open>n\<close> requests were sent before
    it: the promise rejects with an error, or resolves with a response whose \<^verbatim>\<open>data\<close> is
    given.
  \<^item> \<^verbatim>\<open>js_div\<close>, \<^verbatim>\<open>js_add\<close>, \<^verbatim>\<open>js_sub\<close> and \<^verbatim>\<open>js_lt\<close> are the operators \<^verbatim>\<open>/\<close>, \<^verbatim>\<open>+\<close>, \<^verbatim>\<open>-\<close> and \<^verbatim>\<open><\<close>
    of the engine on any two values: rounded binary64 arithmetic on numbers,
    concatenation when \<^verbatim>\<open>+\<close> meets a string, \<^verbatim>\<open>NaN\<close> where a value is no number. The
    program is verified for whatever they compute.
\<close>

record world =
  dateNow :: "nat \<Rightarrow> int"
  axios :: "nat \<Rightarrow> request \<Rightarrow> js_error + jsval"
  js_div :: "jsval \<Rightarrow> jsval \<Rightarrow> jsval"
  js_add :: "jsval \<Rightarrow> jsval \<Rightarrow> jsval"
  js_sub :: "jsval \<Rightarrow> jsval \<Rightarrow> jsval"
  js_lt :: "jsval \<Rightarrow> jsval \<Rightarrow> bool"

text \<open>
  The module's two variables (the token cache), with the number of clock readings
  made and the requests sent so far, oldest first.
\<close>

record state =
  cachedSugarToken :: jsval
  sugarTokenExpiresAt :: jsval
  clockReads :: nat
  outbound :: "request list"

text \<open>The module as loaded: \<^verbatim>\<open>cachedSugarToken = null\<close>, \<^verbatim>\<open>sugarTokenExpiresAt = 0\<close>.\<close>

definition initial :: state where
  "initial = \<lparr>cachedSugarToken = JNull, sugarTokenExpiresAt = JNum (Finite 0),
              clockReads = 0, outbound = []\<rparr>"

text \<open>Sending a request appends it to the log.\<close>

definition send :: "request \<Rightarrow> state \<Rightarrow> state" where
  "send rq s = s\<lparr>outbound := outbound s @ [rq]\<rparr>"

section \<open>The CRM token and its cache\<close>

text \<open>
  Lines 12 to 34. \<^verbatim>\<open>now\<close> is \<^verbatim>\<open>Date.now() / 1000\<close>; the cache answers when
  \<^verbatim>\<open>cachedSugarToken && now < sugarTokenExpiresAt - 60\<close>; otherwise the token is requested,
  and \<^verbatim>\<open>response.data.access_token\<close> (which throws when \<^verbatim>\<open>data\<close> is \<^verbatim>\<open>undefined\<close> or \<^verbatim>\<open>null\<close>)
  and \<^verbatim>\<open>now + response.data.expires_in\<close> are stored.
\<close>

definition getSugarAuthToken :: "world \<Rightarrow> config \<Rightarrow> state \<Rightarrow> (js_error + jsval) \<times> state" where
  "getSugarAuthToken w cfg s =
     (let now = js_div w (JNum (Finite (of_int (dateNow w (clockReads s))))) (JNum (Finite 1000));
          s1 = s\<lparr>clockReads := Suc (clockReads s)\<rparr> in
      if truthy (cachedSugarToken s1) \<and>
         js_lt w now (js_sub w (sugarTokenExpiresAt s1) (JNum (Finite 60)))
      then (Inr (cachedSugarToken s1), s1)
      else
        (let rq = Post (env_tmpl (SUGAR_URL cfg) @ ''/rest/v11_10/oauth2/token'')
                    (JObj [(''grant_type'', JStr ''password''),
                           (''client_id'', JStr ''sugar''),
                           (''client_secret'', JStr ''''),
                           (''username'', env_val (SUGAR_USERNAME cfg)),
                           (''password'', env_val (SUGAR_PASSWORD cfg)),
                           (''platform'', js_or (env_val (SUGAR_PLATFORM cfg)) (JStr ''custom_api''))]);
             s2 = send rq s1 in
         case axios w (length (outbound s1)) rq of
           Inl err \<Rightarrow> (Inl err, s2)
         | Inr data \<Rightarrow>
             (case get_prop data ''access_token'' of
                Inl err \<Rightarrow> (Inl err, s2)
              | Inr token \<Rightarrow>
                  (Inr token,
                   s2\<lparr>cachedSugarToken := token,
                      sugarTokenExpiresAt := js_add w now (own_prop data ''expires_in'')\<rparr>))))"

section \<open>The postal token\<close>

definition getUSPSAccessToken :: "world \<Rightarrow> config \<Rightarrow> state \<Rightarrow> (js_error + jsval) \<times> state" where
  "getUSPSAccessToken w cfg s =
     (let rq = Post ''https://apis-tem.usps.com/oauth2/v3/token''
                 (JObj [(''client_id'', env_val (USPS_CLIENT_ID cfg)),
                        (''client_secret'', env_val (USPS_CLIENT_SECRET cfg)),
                        (''grant_type'', JStr ''client_credentials'')]);
          s1 = send rq s in
      case axios w (length (outbound s)) rq of
        Inl err \<Rightarrow> (Inl err, s1)
      | Inr data \<Rightarrow> (get_prop data ''access_token'', s1))"

section \<open>Reading and updating a contact\<close>

text \<open>
  The identifier is what the handler passes on, the value of \<^verbatim>\<open>record_id\<close>; the
  template literal of the address turns it into a string.
\<close>

definition getSugarContact ::
  "world \<Rightarrow> config \<Rightarrow> query \<Rightarrow> state \<Rightarrow> (js_error + jsval) \<times> state" where
  "getSugarContact w cfg ident s =
     (case getSugarAuthToken w cfg s of
        (Inl err, s1) \<Rightarrow> (Inl err, s1)
      | (Inr token, s1) \<Rightarrow>
          (let rq = Get (env_tmpl (SUGAR_URL cfg) @ ''/rest/v11_10/Contacts/'' @ query_string ident)
                      [(''OAuth-Token'', Raw token)] JUndefined in
           (axios w (length (outbound s1)) rq, send rq s1)))"

definition updateSugarContact ::
  "world \<Rightarrow> config \<Rightarrow> query \<Rightarrow> jsval \<Rightarrow> state \<Rightarrow> (js_error + unit) \<times> state" where
  "updateSugarContact w cfg ident data s =
     (case getSugarAuthToken w cfg s of
        (Inl err, s1) \<Rightarrow> (Inl err, s1)
      | (Inr token, s1) \<Rightarrow>
          (let rq = Put (env_tmpl (SUGAR_URL cfg) @ ''/rest/v11_10/Contacts/'' @ query_string ident)
                      data [(''OAuth-Token'', Raw token)] in
           (case axios w (length (outbound s1)) rq of
              Inl err \<Rightarrow> (Inl err, send rq s1)
            | Inr _ \<Rightarrow> (Inr (), send rq s1))))"

section \<open>The route \<^verbatim>\<open>GET /usps/validate\<close>\<close>

text \<open>What the handler answers: \<^verbatim>\<open>res.status(n).send(text)\<close>; \<^verbatim>\<open>res.send(text)\<close> alone is a 200.\<close>

record response =
  status :: nat
  body :: string

text \<open>
  Lines 86 to 92: the object \<^verbatim>\<open>params\<close>. The five reads are of the same \<^verbatim>\<open>contact\<close>:
  when that is \<^verbatim>\<open>undefined\<close> or \<^verbatim>\<open>null\<close> the first read throws, and when the first
  read does not throw none does.
\<close>

definition build_params :: "jsval \<Rightarrow> js_error + jsval" where
  "build_params contact =
     (case get_prop contact ''primary_address_street'' of
        Inl err \<Rightarrow> Inl err
      | Inr street \<Rightarrow>
          Inr (JObj [(''streetAddress'', js_or street (JStr [])),
                     (''secondaryAddress'', js_or (own_prop contact ''mailing_address_2_c'') (JStr [])),
                     (''city'', js_or (own_prop contact ''primary_address_city'') (JStr [])),
                     (''state'', js_or (own_prop contact ''primary_address_state'') (JStr [])),
                     (''ZIPCode'', js_or (own_prop contact ''primary_address_postalcode'') (JStr []))]))"

text \<open>Line 97: the test of the required fields.\<close>

definition missing_required :: "jsval \<Rightarrow> bool" where
  "missing_required params =
     (\<not> truthy (own_prop params ''streetAddress'') \<or> \<not> truthy (own_prop params ''city'')
      \<or> \<not> truthy (own_prop params ''state'') \<or> \<not> truthy (own_prop params ''ZIPCode''))"

text \<open>
  Lines 117 to 123: the object passed to \<^verbatim>\<open>updateSugarContact\<close>. It is built before the
  call, so a \<^verbatim>\<open>corrected\<close> that is \<^verbatim>\<open>undefined\<close> or \<^verbatim>\<open>null\<close> throws before anything is sent.
\<close>

definition build_update :: "jsval \<Rightarrow> js_error + jsval" where
  "build_update corrected =
     (case get_prop corrected ''streetAddressAbbreviation'' of
        Inl err \<Rightarrow> Inl err
      | Inr street \<Rightarrow>
          Inr (JObj [(''primary_address_street'', street),
                     (''primary_address_city'', own_prop corrected ''city''),
                     (''primary_address_state'', own_prop corrected ''state''),
                     (''primary_address_postalcode'', own_prop corrected ''ZIPCode''),
                     (''address_validation_status_c'', JStr ''Validated'')]))"

text \<open>Lines 114 to 125: from the postal answer to the response.\<close>

definition write_back ::
  "world \<Rightarrow> config \<Rightarrow> query \<Rightarrow> jsval \<Rightarrow> state \<Rightarrow> (js_error + response) \<times> state" where
  "write_back w cfg recordId data s =
     (case get_prop data ''address'' of
        Inl err \<Rightarrow> (Inl err, s)
      | Inr corrected \<Rightarrow>
          (case build_update corrected of
             Inl err \<Rightarrow> (Inl err, s)
           | Inr update \<Rightarrow>
               (case updateSugarContact w cfg recordId update s of
                  (Inl err, s1) \<Rightarrow> (Inl err, s1)
                | (Inr _, s1) \<Rightarrow>
                    (Inr \<lparr>status = 200,
                          body = ''<h3>Address validated and updated for Contact ID: ''
                                 @ query_string recordId @ ''</h3>''\<rparr>,
                     s1))))"

text \<open>Lines 102 to 110: the postal token, then the standardization request.\<close>

definition standardize ::
  "world \<Rightarrow> config \<Rightarrow> jsval \<Rightarrow> state \<Rightarrow> (js_error + jsval) \<times> state" where
  "standardize w cfg params s =
     (case getUSPSAccessToken w cfg s of
        (Inl err, s1) \<Rightarrow> (Inl err, s1)
      | (Inr uspsToken, s1) \<Rightarrow>
          (let rq = Get ''https://apis-tem.usps.com/addresses/v3/address-standardization''
                      [(''Authorization'', Bearer uspsToken), (''Accept'', Raw (JStr ''application/json''))]
                      params in
           (axios w (length (outbound s1)) rq, send rq s1)))"

text \<open>The body of the \<^verbatim>\<open>try\<close>: \<open>Inl\<close> is a throw, \<open>Inr\<close> a response sent.\<close>

definition try_block ::
  "world \<Rightarrow> config \<Rightarrow> query \<Rightarrow> state \<Rightarrow> (js_error + response) \<times> state" where
  "try_block w cfg recordId s =
     (case getSugarContact w cfg recordId s of
        (Inl err, s1) \<Rightarrow> (Inl err, s1)
      | (Inr contact, s1) \<Rightarrow>
          (case build_params contact of
             Inl err \<Rightarrow> (Inl err, s1)
           | Inr params \<Rightarrow>
               if missing_required params
               then (Inr \<lparr>status = 400, body = ''Missing one or more required address fields''\<rparr>, s1)
               else
                 (case standardize w cfg params s1 of
                    (Inl err, s2) \<Rightarrow> (Inl err, s2)
                  | (Inr data, s2) \<Rightarrow> write_back w cfg recordId data s2)))"

text \<open>
  The handler. \<^verbatim>\<open>req.query.record_id\<close> is \<^verbatim>\<open>undefined\<close> (here \<open>None\<close>) when the query has
  no such parameter; \<^verbatim>\<open>!recordId\<close> holds for \<^verbatim>\<open>undefined\<close> and for the empty string, and
  for nothing else.
\<close>

definition validate :: "world \<Rightarrow> config \<Rightarrow> query option \<Rightarrow> state \<Rightarrow> response \<times> state" where
  "validate w cfg record_id s =
     (case record_id of
        None \<Rightarrow> (\<lparr>status = 400, body = ''Missing record_id''\<rparr>, s)
      | Some recordId \<Rightarrow>
          if \<not> query_truthy recordId
          then (\<lparr>status = 400, body = ''Missing record_id''\<rparr>, s)
          else
            (case try_block w cfg recordId s of
               (Inr res, s1) \<Rightarrow> (res, s1)
             | (Inl err, s1) \<Rightarrow>
                 (\<lparr>status = 500,
                   body = ''<h3>Address validation failed</h3><pre>'' @ message err @ ''</pre>''\<rparr>,
                  s1)))"

section \<open>Observing a run\<close>

text \<open>The requests sent between two states of one run.\<close>

definition sent_since :: "state \<Rightarrow> state \<Rightarrow> request list" where
  "sent_since s s1 = drop (length (outbound s)) (outbound s1)"

text \<open>The same requests, each with the outcome the world gave it.\<close>

definition exchanges :: "world \<Rightarrow> state \<Rightarrow> state \<Rightarrow> (request \<times> (js_error + jsval)) list" where
  "exchanges w s s1 =
     map (\<lambda>(n, rq). (rq, axios w n rq)) (enumerate (length (outbound s)) (sent_since s s1))"

text \<open>
  The value of \<^verbatim>\<open>now\<close> at the \<open>n\<close>-th reading of the clock, and whether a cache holding
  \<^verbatim>\<open>token\<close> and \<^verbatim>\<open>expiresAt\<close> answers at that value: \<^verbatim>\<open>token && now < expiresAt - 60\<close>.
\<close>

definition now_at :: "world \<Rightarrow> nat \<Rightarrow> jsval" where
  "now_at w n = js_div w (JNum (Finite (of_int (dateNow w n)))) (JNum (Finite 1000))"

definition in_window :: "world \<Rightarrow> jsval \<Rightarrow> jsval \<Rightarrow> nat \<Rightarrow> bool" where
  "in_window w token expiresAt n =
     (truthy token \<and> js_lt w (now_at w n) (js_sub w expiresAt (JNum (Finite 60))))"

text \<open>The password-grant request to the CRM token endpoint.\<close>

definition sugarTokenRequest :: "config \<Rightarrow> request" where
  "sugarTokenRequest cfg =
     Post (env_tmpl (SUGAR_URL cfg) @ ''/rest/v11_10/oauth2/token'')
       (JObj [(''grant_type'', JStr ''password''),
              (''client_id'', JStr ''sugar''),
              (''client_secret'', JStr ''''),
              (''username'', env_val (SUGAR_USERNAME cfg)),
              (''password'', env_val (SUGAR_PASSWORD cfg)),
              (''platform'', js_or (env_val (SUGAR_PLATFORM cfg)) (JStr ''custom_api''))])"

text \<open>The address of a contact in the CRM.\<close>

definition contactUrl :: "config \<Rightarrow> query \<Rightarrow> string" where
  "contactUrl cfg ident = env_tmpl (SUGAR_URL cfg) @ ''/rest/v11_10/Contacts/'' @ query_string ident"

text \<open>The two postal endpoints; a request to one of them; an update of a contact.\<close>

definition uspsTokenUrl :: string where
  "uspsTokenUrl = ''https://apis-tem.usps.com/oauth2/v3/token''"

definition uspsAddressUrl :: string where
  "uspsAddressUrl = ''https://apis-tem.usps.com/addresses/v3/address-standardization''"

fun is_postal :: "request \<Rightarrow> bool" where
  "is_postal (Post url data) = (url = uspsTokenUrl)"
| "is_postal (Get url headers params) = (url = uspsAddressUrl)"
| "is_postal (Put url data headers) = False"

fun is_update :: "request \<Rightarrow> bool" where
  "is_update (Put url data headers) = True"
| "is_update rq = False"

text \<open>
  Calling \<^verbatim>\<open>getSugarAuthToken\<close> \<open>n\<close> times in a row, each call starting in the state the one
  before left: the results in order, and the last state.
\<close>

fun getSugarAuthToken_times ::
  "nat \<Rightarrow> world \<Rightarrow> config \<Rightarrow> state \<Rightarrow> (js_error + jsval) list \<times> state" where
  "getSugarAuthToken_times 0 w cfg s = ([], s)"
| "getSugarAuthToken_times (Suc n) w cfg s =
     (case getSugarAuthToken w cfg s of
        (r, s1) \<Rightarrow> (case getSugarAuthToken_times n w cfg s1 of (rs, s2) \<Rightarrow> (r # rs, s2)))"

section \<open>A binary64 engine\<close>

text \<open>
  Rounding a rational to the nearest binary64 value, ties to the even significand:
  \<open>bits n\<close> is the length of \<open>n\<close> in binary, \<open>ilog2 a\<close> the exponent \<open>e\<close> with
  \<open>2 ^ e \<le> a < 2 ^ (e + 1)\<close> for a positive \<open>a\<close>, and a value of exponent \<open>e\<close> is rounded
  to a multiple of \<open>2 ^ (e - 52)\<close>, of \<open>2 ^ -1074\<close> at least; what reaches \<open>2 ^ 1024\<close> is
  infinite.
\<close>

fun bits :: "nat \<Rightarrow> nat" where
  "bits n = (if n = 0 then 0 else Suc (bits (n div 2)))"

definition pow2 :: "int \<Rightarrow> rat" where
  "pow2 q = (if 0 \<le> q then 2 ^ nat q else 1 / 2 ^ nat (- q))"

definition ilog2 :: "rat \<Rightarrow> int" where
  "ilog2 a =
     (if 1 \<le> a then int (bits (nat \<lfloor>a\<rfloor>)) - 1
      else (let k = int (bits (nat \<lfloor>1 / a\<rfloor>)) in
            if a * pow2 (k - 1) = 1 then - (k - 1) else - k))"

definition nearest_even :: "rat \<Rightarrow> int" where
  "nearest_even m =
     (let n = \<lfloor>m\<rfloor>; f = m - of_int n in
      if f < 1 / 2 then n
      else if 1 / 2 < f then n + 1
      else if even n then n else n + 1)"

definition round64 :: "rat \<Rightarrow> number" where
  "round64 x =
     (if x = 0 then Finite 0
      else
        (let a = \<bar>x\<bar>;
             q = max (ilog2 a - 52) (- 1074);
             n = nearest_even (a / pow2 q);
             y = of_int n * pow2 q in
         if 2 ^ 1024 \<le> y then (if x < 0 then NegInfinity else PosInfinity)
         else if n = 0 then (if x < 0 then NegZero else Finite 0)
         else Finite (if x < 0 then - y else y)))"

text \<open>Addition, negation, division and comparison of binary64 values.\<close>

fun add64 :: "number \<Rightarrow> number \<Rightarrow> number" where
  "add64 NaN y = NaN"
| "add64 x NaN = NaN"
| "add64 PosInfinity NegInfinity = NaN"
| "add64 NegInfinity PosInfinity = NaN"
| "add64 PosInfinity y = PosInfinity"
| "add64 NegInfinity y = NegInfinity"
| "add64 x PosInfinity = PosInfinity"
| "add64 x NegInfinity = NegInfinity"
| "add64 NegZero y = y"
| "add64 x NegZero = x"
| "add64 (Finite a) (Finite b) = round64 (a + b)"

fun neg64 :: "number \<Rightarrow> number" where
  "neg64 (Finite a) = (if a = 0 then NegZero else Finite (- a))"
| "neg64 NegZero = Finite 0"
| "neg64 PosInfinity = NegInfinity"
| "neg64 NegInfinity = PosInfinity"
| "neg64 NaN = NaN"

fun negative :: "number \<Rightarrow> bool" where
  "negative (Finite a) = (a < 0)"
| "negative NegZero = True"
| "negative NegInfinity = True"
| "negative x = False"

fun magnitude :: "number \<Rightarrow> rat option" where
  "magnitude (Finite a) = Some \<bar>a\<bar>"
| "magnitude NegZero = Some 0"
| "magnitude x = None"

definition div64 :: "number \<Rightarrow> number \<Rightarrow> number" where
  "div64 x y =
     (if x = NaN \<or> y = NaN then NaN
      else
        (case (magnitude x, magnitude y) of
           (None, None) \<Rightarrow> NaN
         | (None, Some b) \<Rightarrow> if negative x = negative y then PosInfinity else NegInfinity
         | (Some a, None) \<Rightarrow> if negative x = negative y then Finite 0 else NegZero
         | (Some a, Some b) \<Rightarrow>
             if b = 0 then
               (if a = 0 then NaN
                else if negative x = negative y then PosInfinity else NegInfinity)
             else if a = 0 then (if negative x = negative y then Finite 0 else NegZero)
             else round64 (if negative x = negative y then a / b else - (a / b))))"

fun lt64 :: "number \<Rightarrow> number \<Rightarrow> bool" where
  "lt64 NaN y = False"
| "lt64 x NaN = False"
| "lt64 x NegInfinity = False"
| "lt64 NegInfinity y = True"
| "lt64 PosInfinity y = False"
| "lt64 x PosInfinity = True"
| "lt64 NegZero NegZero = False"
| "lt64 NegZero (Finite b) = (0 < b)"
| "lt64 (Finite a) NegZero = (a < 0)"
| "lt64 (Finite a) (Finite b) = (a < b)"

text \<open>
  The operators on values that are numbers, \<^verbatim>\<open>undefined\<close>, \<^verbatim>\<open>null\<close> or booleans, which
  ToNumber turns into numbers. What they give on strings, arrays and objects
  (concatenation, parsing) is left open here.
\<close>

fun numeric :: "jsval \<Rightarrow> bool" where
  "numeric (JStr s) = False"
| "numeric (JArr xs) = False"
| "numeric (JObj kvs) = False"
| "numeric v = True"

fun to_number :: "jsval \<Rightarrow> number" where
  "to_number JUndefined = NaN"
| "to_number JNull = Finite 0"
| "to_number (JBool b) = Finite (if b then 1 else 0)"
| "to_number (JNum n) = n"
| "to_number v = undefined"

definition div_js :: "jsval \<Rightarrow> jsval \<Rightarrow> jsval" where
  "div_js a b = (if numeric a \<and> numeric b then JNum (div64 (to_number a) (to_number b)) else undefined)"

definition add_js :: "jsval \<Rightarrow> jsval \<Rightarrow> jsval" where
  "add_js a b = (if numeric a \<and> numeric b then JNum (add64 (to_number a) (to_number b)) else undefined)"

definition sub_js :: "jsval \<Rightarrow> jsval \<Rightarrow> jsval" where
  "sub_js a b =
     (if numeric a \<and> numeric b then JNum (add64 (to_number a) (neg64 (to_number b))) else undefined)"

definition lt_js :: "jsval \<Rightarrow> jsval \<Rightarrow> bool" where
  "lt_js a b = (if numeric a \<and> numeric b then lt64 (to_number a) (to_number b) else undefined)"

section \<open>Example surroundings\<close>

text \<open>
  A world with the binary64 engine in which each of the five endpoints always gives the
  same outcome (the CRM token endpoint, the read of a contact, the postal token endpoint,
  the standardization endpoint, the update of a contact), and the data of the concrete
  runs shown with the claims.
\<close>

definition scenario ::
  "(nat \<Rightarrow> int) \<Rightarrow> (js_error + jsval) \<Rightarrow> (js_error + jsval) \<Rightarrow> (js_error + jsval)
     \<Rightarrow> (js_error + jsval) \<Rightarrow> (js_error + jsval) \<Rightarrow> world" where
  "scenario clock crmToken contact uspsToken standardized updated =
     \<lparr>dateNow = clock,
      axios = (\<lambda>n rq. case rq of
                 Post url data \<Rightarrow>
                   if url = ''https://apis-tem.usps.com/oauth2/v3/token'' then uspsToken else crmToken
               | Get url headers params \<Rightarrow>
                   if url = ''https://apis-tem.usps.com/addresses/v3/address-standardization''
                   then standardized else contact
               | Put url data headers \<Rightarrow> updated),
      js_div = div_js, js_add = add_js, js_sub = sub_js, js_lt = lt_js\<rparr>"

definition example_cfg :: config where
  "example_cfg =
     \<lparr>SUGAR_URL = Some ''https://crm.example.com'', SUGAR_USERNAME = Some ''admin'',
      SUGAR_PASSWORD = Some ''secret'', SUGAR_PLATFORM = None,
      USPS_CLIENT_ID = Some ''id'', USPS_CLIENT_SECRET = Some ''key''\<rparr>"

definition example_clock :: "nat \<Rightarrow> int" where
  "example_clock n = 1700000000123 + 1000 * int n"

definition example_grant :: jsval where
  "example_grant = JObj [(''access_token'', JStr ''crm-token''), (''expires_in'', JNum (Finite 3600))]"

definition example_usps_grant :: jsval where
  "example_usps_grant = JObj [(''access_token'', JStr ''usps-token'')]"

definition example_contact :: jsval where
  "example_contact =
     JObj [(''primary_address_street'', JStr ''1 Main Street''),
           (''primary_address_city'', JStr ''Springfield''),
           (''primary_address_state'', JStr ''IL''),
           (''primary_address_postalcode'', JStr ''62701'')]"

definition example_standardized :: jsval where
  "example_standardized =
     JObj [(''address'',
            JObj [(''streetAddressAbbreviation'', JStr ''1 MAIN ST''),
                  (''city'', JStr ''SPRINGFIELD''),
                  (''state'', JStr ''IL''),
                  (''ZIPCode'', JStr ''62701'')])]"

definition example_world :: world where
  "example_world =
     scenario example_clock (Inr example_grant) (Inr example_contact)
       (Inr example_usps_grant) (Inr example_standardized) (Inr JNull)"

definition example_token_request :: request where
  "example_token_request =
     Post ''https://crm.example.com/rest/v11_10/oauth2/token''
       (JObj [(''grant_type'', JStr ''password''), (''client_id'', JStr ''sugar''),
              (''client_secret'', JStr []), (''username'', JStr ''admin''),
              (''password'', JStr ''secret''), (''platform'', JStr ''custom_api'')])"

definition example_cached :: state where
  "example_cached =
     \<lparr>cachedSugarToken = JStr ''crm-token'',
      sugarTokenExpiresAt = JNum (Finite (7130331900010299 / 4194304)),
      clockReads = 1, outbound = [example_token_request]\<rparr>"

definition example_stale :: state where
  "example_stale =
     \<lparr>cachedSugarToken = JStr ''old-token'', sugarTokenExpiresAt = JNum (Finite 1600000000),
      clockReads = 0, outbound = []\<rparr>"

definition example_incomplete :: jsval where
  "example_incomplete =
     JObj [(''primary_address_street'', JStr ''9 Elm Road''),
           (''mailing_address_2_c'', JStr ''Apt 4''),
           (''primary_address_city'', JStr ''Dover''),
           (''primary_address_state'', JStr []),
           (''primary_address_postalcode'', JStr ''19901'')]"

definition example_params :: jsval where
  "example_params =
     JObj [(''streetAddress'', JStr ''1 Main Street''), (''secondaryAddress'', JStr []),
           (''city'', JStr ''Springfield''), (''state'', JStr ''IL''), (''ZIPCode'', JStr ''62701'')]"

definition example_update :: jsval where
  "example_update =
     JObj [(''primary_address_street'', JStr ''1 MAIN ST''),
           (''primary_address_city'', JStr ''SPRINGFIELD''),
           (''primary_address_state'', JStr ''IL''),
           (''primary_address_postalcode'', JStr ''62701''),
           (''address_validation_status_c'', JStr ''Validated'')]"

definition example_requests :: "string \<Rightarrow> request list" where
  "example_requests ident =
     [example_token_request,
      Get (''https://crm.example.com/rest/v11_10/Contacts/'' @ ident)
        [(''OAuth-Token'', Raw (JStr ''crm-token''))] JUndefined,
      Post ''https://apis-tem.usps.com/oauth2/v3/token''
        (JObj [(''client_id'', JStr ''id''), (''client_secret'', JStr ''key''),
               (''grant_type'', JStr ''client_credentials'')]),
      Get ''https://apis-tem.usps.com/addresses/v3/address-standardization''
        [(''Authorization'', Bearer (JStr ''usps-token'')), (''Accept'', Raw (JStr ''application/json''))]
        example_params,
      Put (''https://crm.example.com/rest/v11_10/Contacts/'' @ ident) example_update
        [(''OAuth-Token'', Raw (JStr ''crm-token''))]]"

definition example_after :: "string \<Rightarrow> nat \<Rightarrow> nat \<Rightarrow> state" where
  "example_after ident reads n =
     \<lparr>cachedSugarToken = JStr ''crm-token'',
      sugarTokenExpiresAt = JNum (Finite (7130331900010299 / 4194304)),
      clockReads = reads, outbound = take n (example_requests ident)\<rparr>"

definition example_unauthorized :: js_error where
  "example_unauthorized = Error ''Request failed with status code 401''"

definition example_not_found :: js_error where
  "example_not_found = Error ''Request failed with status code 404''"

definition example_bad_request :: js_error where
  "example_bad_request = Error ''Request failed with status code 400''"

definition example_unavailable :: js_error where
  "example_unavailable = Error ''Request failed with status code 503''"

definition example_refused :: js_error where
  "example_refused = Error ''connect ECONNREFUSED''"

definition example_incomplete_world :: world where
  "example_incomplete_world =
     scenario example_clock (Inr example_grant) (Inr example_incomplete)
       (Inl example_refused) (Inl example_refused) (Inl example_refused)"

definition example_no_crm_token_world :: world where
  "example_no_crm_token_world =
     scenario example_clock (Inl example_unauthorized) (Inr example_contact)
       (Inr example_usps_grant) (Inr example_standardized) (Inr JNull)"

definition example_not_found_world :: world where
  "example_not_found_world =
     scenario example_clock (Inr example_grant) (Inl example_not_found)
       (Inr example_usps_grant) (Inr example_standardized) (Inr JNull)"

definition example_no_usps_token_world :: world where
  "example_no_usps_token_world =
     scenario example_clock (Inr example_grant) (Inr example_contact)
       (Inl example_unauthorized) (Inr example_standardized) (Inr JNull)"

definition example_unresolvable_world :: world where
  "example_unresolvable_world =
     scenario example_clock (Inr example_grant) (Inr example_contact)
       (Inr example_usps_grant) (Inl example_bad_request) (Inr JNull)"

definition example_no_update_world :: world where
  "example_no_update_world =
     scenario example_clock (Inr example_grant) (Inr example_contact)
       (Inr example_usps_grant) (Inr example_standardized) (Inl example_unavailable)"

definition example_no_address_world :: world where
  "example_no_address_world =
     scenario example_clock (Inr example_grant) (Inr example_contact)
       (Inr example_usps_grant) (Inr (JObj [])) (Inr JNull)"

definition example_edge_world :: world where
  "example_edge_world =
     scenario (\<lambda>n. 1700000000121) (Inr example_grant) (Inr example_contact)
       (Inr example_usps_grant) (Inr example_standardized) (Inr JNull)"

definition example_edge :: state where
  "example_edge =
     \<lparr>cachedSugarToken = JStr ''old-token'',
      sugarTokenExpiresAt = JNum (Finite (7130317052165751 / 4194304)),
      clockReads = 0, outbound = []\<rparr>"

section \<open>The example engine at the example clock\<close>

text \<open>Rounding a positive value, step by step.\<close>

lemma floor_rat_numeral: "\<lfloor>numeral a / numeral b :: rat\<rfloor> = numeral a div numeral b"
  using floor_divide_of_int_eq [of "numeral a" "numeral b", where ?'a = rat] by simp

lemma round64_pos:
  assumes "0 < x" and "ilog2 x = e" and "max (e - 52) (- 1074) = q" and "pow2 q = p"
      and "nearest_even (x / p) = n" and "n \<noteq> 0" and "of_int n * p < 2 ^ 1024"
  shows "round64 x = Finite (of_int n * p)"
  using assms by (simp add: round64_def Let_def)

lemmas round64_eval = ilog2_def pow2_def nearest_even_def Let_def floor_rat_numeral max_def

text \<open>
  \<^verbatim>\<open>now\<close> at the first four readings of the example clock: \<^verbatim>\<open>1700000000123 / 1000\<close> is
  not a binary64 value, and the quotient is the nearest multiple of \<open>2 ^ -22\<close>.
\<close>

lemma example_now_0:
  "div_js (JNum (Finite 1700000000123)) (JNum (Finite 1000)) = JNum (Finite (7130316800515899 / 4194304))"
proof -
  have "round64 (1700000000123 / 1000) = Finite (of_int 7130316800515899 * (1 / 4194304))"
    by (rule round64_pos [where e = 30 and q = "- 22"]) (simp_all add: round64_eval)
  then show ?thesis by (simp add: div_js_def div64_def)
qed

lemma example_now_1:
  "div_js (JNum (Finite 1700000001123)) (JNum (Finite 1000)) = JNum (Finite (7130316804710203 / 4194304))"
proof -
  have "round64 (1700000001123 / 1000) = Finite (of_int 7130316804710203 * (1 / 4194304))"
    by (rule round64_pos [where e = 30 and q = "- 22"]) (simp_all add: round64_eval)
  then show ?thesis by (simp add: div_js_def div64_def)
qed

lemma example_now_2:
  "div_js (JNum (Finite 1700000002123)) (JNum (Finite 1000)) = JNum (Finite (7130316808904507 / 4194304))"
proof -
  have "round64 (1700000002123 / 1000) = Finite (of_int 7130316808904507 * (1 / 4194304))"
    by (rule round64_pos [where e = 30 and q = "- 22"]) (simp_all add: round64_eval)
  then show ?thesis by (simp add: div_js_def div64_def)
qed

lemma example_now_3:
  "div_js (JNum (Finite 1700000003123)) (JNum (Finite 1000)) = JNum (Finite (7130316813098811 / 4194304))"
proof -
  have "round64 (1700000003123 / 1000) = Finite (of_int 7130316813098811 * (1 / 4194304))"
    by (rule round64_pos [where e = 30 and q = "- 22"]) (simp_all add: round64_eval)
  then show ?thesis by (simp add: div_js_def div64_def)
qed

text \<open>The expiry an hour after the first reading, and that expiry less the margin.\<close>

lemma example_expiry:
  "add_js (JNum (Finite (7130316800515899 / 4194304))) (JNum (Finite 3600))
     = JNum (Finite (7130331900010299 / 4194304))"
proof -
  have "round64 (7130316800515899 / 4194304 + 3600) = Finite (of_int 7130331900010299 * (1 / 4194304))"
    by (rule round64_pos [where e = 30 and q = "- 22"]) (simp_all add: round64_eval)
  then show ?thesis by (simp add: add_js_def)
qed

lemma example_margin:
  "sub_js (JNum (Finite (7130331900010299 / 4194304))) (JNum (Finite 60))
     = JNum (Finite (7130331648352059 / 4194304))"
proof -
  have "round64 (7130331900010299 / 4194304 + - 60) = Finite (of_int 7130331648352059 * (1 / 4194304))"
    by (rule round64_pos [where e = 30 and q = "- 22"]) (simp_all add: round64_eval)
  then show ?thesis by (simp add: sub_js_def)
qed

lemma example_stale_margin:
  "sub_js (JNum (Finite 1600000000)) (JNum (Finite 60)) = JNum (Finite 1599999940)"
proof -
  have "round64 (1600000000 + - 60) = Finite (of_int 6710886148341760 * (1 / 4194304))"
    by (rule round64_pos [where e = 30 and q = "- 22"]) (simp_all add: round64_eval)
  then show ?thesis by (simp add: sub_js_def)
qed

text \<open>
  At \<^verbatim>\<open>Date.now() = 1700000000121\<close> the quotient is rounded up, above \<^verbatim>\<open>1700000000.121\<close>; an
  expiry of sixty seconds after that \<^verbatim>\<open>now\<close>, less the margin, is that \<^verbatim>\<open>now\<close> again.
\<close>

lemma example_now_edge:
  "div_js (JNum (Finite 1700000000121)) (JNum (Finite 1000)) = JNum (Finite (7130316800507511 / 4194304))"
proof -
  have "round64 (1700000000121 / 1000) = Finite (of_int 7130316800507511 * (1 / 4194304))"
    by (rule round64_pos [where e = 30 and q = "- 22"]) (simp_all add: round64_eval)
  then show ?thesis by (simp add: div_js_def div64_def)
qed

lemma example_now_edge_above: "(1700000000121 / 1000 :: rat) < 7130316800507511 / 4194304"
  by simp

lemma example_margin_edge:
  "sub_js (JNum (Finite (7130317052165751 / 4194304))) (JNum (Finite 60))
     = JNum (Finite (7130316800507511 / 4194304))"
proof -
  have "round64 (7130317052165751 / 4194304 + - 60) = Finite (of_int 7130316800507511 * (1 / 4194304))"
    by (rule round64_pos [where e = 30 and q = "- 22"]) (simp_all add: round64_eval)
  then show ?thesis by (simp add: sub_js_def)
qed

lemma example_expiry_edge:
  "add_js (JNum (Finite (7130316800507511 / 4194304))) (JNum (Finite 3600))
     = JNum (Finite (7130331900001911 / 4194304))"
proof -
  have "round64 (7130316800507511 / 4194304 + 3600) = Finite (of_int 7130331900001911 * (1 / 4194304))"
    by (rule round64_pos [where e = 30 and q = "- 22"]) (simp_all add: round64_eval)
  then show ?thesis by (simp add: add_js_def)
qed

lemmas example_arith =
  example_now_0 example_now_1 example_now_2 example_now_3 example_expiry example_margin
  example_stale_margin example_now_edge example_margin_edge example_expiry_edge lt_js_def
section \<open>Facts about the token cache\<close>

text \<open>The two branches of \<^verbatim>\<open>getSugarAuthToken\<close>.\<close>

lemma getSugarAuthToken_hit:
  assumes "in_window w (cachedSugarToken s) (sugarTokenExpiresAt s) (clockReads s)"
  shows "getSugarAuthToken w cfg s = (Inr (cachedSugarToken s), s\<lparr>clockReads := Suc (clockReads s)\<rparr>)"
  using assms by (simp add: getSugarAuthToken_def Let_def in_window_def now_at_def)

lemma getSugarAuthToken_miss:
  assumes "\<not> in_window w (cachedSugarToken s) (sugarTokenExpiresAt s) (clockReads s)"
  shows "getSugarAuthToken w cfg s =
     (case axios w (length (outbound s)) (sugarTokenRequest cfg) of
        Inl err \<Rightarrow> (Inl err, send (sugarTokenRequest cfg) (s\<lparr>clockReads := Suc (clockReads s)\<rparr>))
      | Inr data \<Rightarrow>
          (case get_prop data ''access_token'' of
             Inl err \<Rightarrow> (Inl err, send (sugarTokenRequest cfg) (s\<lparr>clockReads := Suc (clockReads s)\<rparr>))
           | Inr token \<Rightarrow>
               (Inr token,
                (send (sugarTokenRequest cfg) (s\<lparr>clockReads := Suc (clockReads s)\<rparr>))
                  \<lparr>cachedSugarToken := token,
                   sugarTokenExpiresAt :=
                     js_add w (now_at w (clockReads s)) (own_prop data ''expires_in'')\<rparr>)))"
  using assms
  by (auto simp add: getSugarAuthToken_def Let_def in_window_def now_at_def sugarTokenRequest_def
      split: sum.splits)

text \<open>Calls in a row that all fall inside the window.\<close>

lemma getSugarAuthToken_times_in_window:
  assumes "\<forall>k<n. in_window w (cachedSugarToken s) (sugarTokenExpiresAt s) (clockReads s + k)"
  shows "getSugarAuthToken_times n w cfg s =
           (replicate n (Inr (cachedSugarToken s)), s\<lparr>clockReads := clockReads s + n\<rparr>)"
  using assms
proof (induction n arbitrary: s)
  case 0
  then show ?case by simp
next
  case (Suc n)
  let ?s1 = "s\<lparr>clockReads := Suc (clockReads s)\<rparr>"
  from Suc.prems have "in_window w (cachedSugarToken s) (sugarTokenExpiresAt s) (clockReads s)"
    by (auto dest: spec [of _ 0])
  then have first: "getSugarAuthToken w cfg s = (Inr (cachedSugarToken s), ?s1)"
    by (rule getSugarAuthToken_hit)
  have "\<forall>k<n. in_window w (cachedSugarToken ?s1) (sugarTokenExpiresAt ?s1) (clockReads ?s1 + k)"
  proof (intro allI impI)
    fix k assume "k < n"
    then have "Suc k < Suc n" by simp
    with Suc.prems have "in_window w (cachedSugarToken s) (sugarTokenExpiresAt s) (clockReads s + Suc k)"
      by blast
    then show "in_window w (cachedSugarToken ?s1) (sugarTokenExpiresAt ?s1) (clockReads ?s1 + k)"
      by simp
  qed
  then have "getSugarAuthToken_times n w cfg ?s1 =
       (replicate n (Inr (cachedSugarToken ?s1)), ?s1\<lparr>clockReads := clockReads ?s1 + n\<rparr>)"
    by (rule Suc.IH)
  with first show ?case by simp
qed

section \<open>The claims about the token cache\<close>

text \<open>
  C1. A call of \<^verbatim>\<open>getSugarAuthToken\<close>, with \<^verbatim>\<open>now\<close> the engine's \<^verbatim>\<open>Date.now() / 1000\<close>: when the
  cache holds a token (a truthy value, which is how the code tests it) and the engine's
  \<^verbatim>\<open>now < expiresAt - 60\<close> holds, the call returns the cached value, sends no request and
  leaves the cache as it was. Otherwise it sends exactly one request, the password-grant
  request to the CRM token endpoint with client id \<^verbatim>\<open>sugar\<close>, an empty secret and the
  configured user, password and platform; when that request succeeds with a body, the call
  returns the body's \<^verbatim>\<open>access_token\<close>, which is now the cached value, and the expiry is the
  engine's \<^verbatim>\<open>now + expires_in\<close>.
\<close>

theorem getSugarAuthToken_cache:
  assumes "getSugarAuthToken w cfg s = (r, s1)"
  shows "(truthy (cachedSugarToken s) \<and>
          js_lt w (js_div w (JNum (Finite (of_int (dateNow w (clockReads s))))) (JNum (Finite 1000)))
                  (js_sub w (sugarTokenExpiresAt s) (JNum (Finite 60))) \<longrightarrow>
            r = Inr (cachedSugarToken s) \<and> sent_since s s1 = [] \<and>
            cachedSugarToken s1 = cachedSugarToken s \<and>
            sugarTokenExpiresAt s1 = sugarTokenExpiresAt s)
       \<and> (\<not> (truthy (cachedSugarToken s) \<and>
          js_lt w (js_div w (JNum (Finite (of_int (dateNow w (clockReads s))))) (JNum (Finite 1000)))
                  (js_sub w (sugarTokenExpiresAt s) (JNum (Finite 60)))) \<longrightarrow>
            sent_since s s1 =
              [Post (env_tmpl (SUGAR_URL cfg) @ ''/rest/v11_10/oauth2/token'')
                 (JObj [(''grant_type'', JStr ''password''),
                        (''client_id'', JStr ''sugar''),
                        (''client_secret'', JStr []),
                        (''username'', env_val (SUGAR_USERNAME cfg)),
                        (''password'', env_val (SUGAR_PASSWORD cfg)),
                        (''platform'',
                         if truthy (env_val (SUGAR_PLATFORM cfg)) then env_val (SUGAR_PLATFORM cfg)
                         else JStr ''custom_api'')])] \<and>
            (\<forall>data. axios w (length (outbound s)) (hd (sent_since s s1)) = Inr data \<and>
                   data \<noteq> JUndefined \<and> data \<noteq> JNull \<longrightarrow>
                   r = Inr (own_prop data ''access_token'') \<and>
                   cachedSugarToken s1 = own_prop data ''access_token'' \<and>
                   sugarTokenExpiresAt s1 =
                     js_add w (js_div w (JNum (Finite (of_int (dateNow w (clockReads s)))))
                                        (JNum (Finite 1000)))
                              (own_prop data ''expires_in'')))"
proof (cases "in_window w (cachedSugarToken s) (sugarTokenExpiresAt s) (clockReads s)")
  case True
  with assms have "r = Inr (cachedSugarToken s)" "s1 = s\<lparr>clockReads := Suc (clockReads s)\<rparr>"
    by (simp_all add: getSugarAuthToken_hit)
  with True show ?thesis
    by (simp add: sent_since_def in_window_def now_at_def)
next
  case False
  have rq: "sugarTokenRequest cfg =
              Post (env_tmpl (SUGAR_URL cfg) @ ''/rest/v11_10/oauth2/token'')
                 (JObj [(''grant_type'', JStr ''password''),
                        (''client_id'', JStr ''sugar''),
                        (''client_secret'', JStr []),
                        (''username'', env_val (SUGAR_USERNAME cfg)),
                        (''password'', env_val (SUGAR_PASSWORD cfg)),
                        (''platform'',
                         if truthy (env_val (SUGAR_PLATFORM cfg)) then env_val (SUGAR_PLATFORM cfg)
                         else JStr ''custom_api'')])"
    by (simp add: sugarTokenRequest_def js_or_def)
  from False assms have sent: "sent_since s s1 = [sugarTokenRequest cfg]"
    by (auto simp: getSugarAuthToken_miss send_def sent_since_def split: sum.splits)
  have stored: "r = Inr (own_prop data ''access_token'') \<and>
           cachedSugarToken s1 = own_prop data ''access_token'' \<and>
           sugarTokenExpiresAt s1 = js_add w (now_at w (clockReads s)) (own_prop data ''expires_in'')"
    if "axios w (length (outbound s)) (sugarTokenRequest cfg) = Inr data"
      and "data \<noteq> JUndefined" and "data \<noteq> JNull" for data
  proof -
    from that(2,3) have "get_prop data ''access_token'' = Inr (own_prop data ''access_token'')"
      by (cases data) simp_all
    with False assms that(1) show ?thesis
      by (auto simp: getSugarAuthToken_miss send_def)
  qed
  from False have miss: "\<not> (truthy (cachedSugarToken s) \<and>
          js_lt w (js_div w (JNum (Finite (of_int (dateNow w (clockReads s))))) (JNum (Finite 1000)))
                  (js_sub w (sugarTokenExpiresAt s) (JNum (Finite 60))))"
    by (simp add: in_window_def now_at_def)
  from stored have "\<forall>data. axios w (length (outbound s)) (hd (sent_since s s1)) = Inr data \<and>
                   data \<noteq> JUndefined \<and> data \<noteq> JNull \<longrightarrow>
                   r = Inr (own_prop data ''access_token'') \<and>
                   cachedSugarToken s1 = own_prop data ''access_token'' \<and>
                   sugarTokenExpiresAt s1 =
                     js_add w (js_div w (JNum (Finite (of_int (dateNow w (clockReads s)))))
                                        (JNum (Finite 1000)))
                              (own_prop data ''expires_in'')"
    unfolding sent now_at_def by simp
  with miss sent show ?thesis
    unfolding rq by simp
qed

text \<open>
  The first call of a fresh process, at \<^verbatim>\<open>Date.now() = 1700000000123\<close>, fetches a token
  that lasts an hour and stores the rounded expiry; the next call, a second later, answers
  from the cache.
\<close>

lemma example_first_call:
  "getSugarAuthToken example_world example_cfg initial = (Inr (JStr ''crm-token''), example_cached)"
  by (simp add: getSugarAuthToken_def Let_def send_def initial_def js_or_def
      example_world_def scenario_def example_clock_def example_grant_def example_cfg_def
      example_cached_def example_token_request_def example_arith)

lemma example_second_call:
  "getSugarAuthToken example_world example_cfg example_cached =
     (Inr (JStr ''crm-token''), example_cached\<lparr>clockReads := 2\<rparr>)"
  by (simp add: getSugarAuthToken_def Let_def
      example_world_def scenario_def example_clock_def example_cached_def example_arith)

text \<open>
  A cache whose expiry is sixty seconds after \<^verbatim>\<open>now\<close>: in binary64 \<^verbatim>\<open>now < expiresAt - 60\<close> is
  false, although \<^verbatim>\<open>1700000000.121\<close> is below the stored expiry less sixty, and the token
  is fetched again.
\<close>

lemma example_edge_call:
  "getSugarAuthToken example_edge_world example_cfg example_edge =
     (Inr (JStr ''crm-token''),
      \<lparr>cachedSugarToken = JStr ''crm-token'',
       sugarTokenExpiresAt = JNum (Finite (7130331900001911 / 4194304)),
       clockReads = 1, outbound = [example_token_request]\<rparr>)"
  by (simp add: getSugarAuthToken_def Let_def send_def js_or_def
      example_edge_world_def scenario_def example_grant_def example_cfg_def
      example_edge_def example_token_request_def example_arith)

theorem getSugarAuthToken_cache_witness:
  "(getSugarAuthToken example_world example_cfg initial = (Inr (JStr ''crm-token''), example_cached)
    \<and> \<not> truthy (cachedSugarToken initial)
    \<and> sent_since initial example_cached = [example_token_request]
    \<and> cachedSugarToken example_cached = JStr ''crm-token''
    \<and> sugarTokenExpiresAt example_cached = JNum (Finite (7130331900010299 / 4194304))
    \<and> getSugarAuthToken example_world example_cfg example_cached =
         (Inr (JStr ''crm-token''), example_cached\<lparr>clockReads := 2\<rparr>)
    \<and> truthy (cachedSugarToken example_cached)
    \<and> js_lt example_world
         (js_div example_world (JNum (Finite (of_int (dateNow example_world (clockReads example_cached)))))
            (JNum (Finite 1000)))
         (js_sub example_world (sugarTokenExpiresAt example_cached) (JNum (Finite 60)))
    \<and> sent_since example_cached (example_cached\<lparr>clockReads := 2\<rparr>) = [])
   \<and> (truthy (cachedSugarToken example_edge)
    \<and> \<not> js_lt example_edge_world
         (js_div example_edge_world
            (JNum (Finite (of_int (dateNow example_edge_world (clockReads example_edge)))))
            (JNum (Finite 1000)))
         (js_sub example_edge_world (sugarTokenExpiresAt example_edge) (JNum (Finite 60)))
    \<and> fst (getSugarAuthToken example_edge_world example_cfg example_edge) = Inr (JStr ''crm-token'')
    \<and> sent_since example_edge (snd (getSugarAuthToken example_edge_world example_cfg example_edge)) =
         [example_token_request]
    \<and> sugarTokenExpiresAt (snd (getSugarAuthToken example_edge_world example_cfg example_edge)) =
         JNum (Finite (7130331900001911 / 4194304)))"
proof (rule conjI)
  have window: "truthy (cachedSugarToken example_cached) \<and>
      js_lt example_world
        (js_div example_world (JNum (Finite (of_int (dateNow example_world (clockReads example_cached)))))
           (JNum (Finite 1000)))
        (js_sub example_world (sugarTokenExpiresAt example_cached) (JNum (Finite 60)))"
    by (simp add: example_world_def scenario_def example_clock_def example_cached_def example_arith)
  have cold: "\<not> truthy (cachedSugarToken initial)"
    by (simp add: initial_def)
  have answer: "axios example_world (length (outbound initial)) example_token_request = Inr example_grant"
    by (simp add: example_world_def scenario_def example_token_request_def)
  from getSugarAuthToken_cache [OF example_first_call] getSugarAuthToken_cache [OF example_second_call]
    window cold answer example_first_call example_second_call
  show "getSugarAuthToken example_world example_cfg initial = (Inr (JStr ''crm-token''), example_cached)
    \<and> \<not> truthy (cachedSugarToken initial)
    \<and> sent_since initial example_cached = [example_token_request]
    \<and> cachedSugarToken example_cached = JStr ''crm-token''
    \<and> sugarTokenExpiresAt example_cached = JNum (Finite (7130331900010299 / 4194304))
    \<and> getSugarAuthToken example_world example_cfg example_cached =
         (Inr (JStr ''crm-token''), example_cached\<lparr>clockReads := 2\<rparr>)
    \<and> truthy (cachedSugarToken example_cached)
    \<and> js_lt example_world
         (js_div example_world (JNum (Finite (of_int (dateNow example_world (clockReads example_cached)))))
            (JNum (Finite 1000)))
         (js_sub example_world (sugarTokenExpiresAt example_cached) (JNum (Finite 60)))
    \<and> sent_since example_cached (example_cached\<lparr>clockReads := 2\<rparr>) = []"
    by (simp add: example_cached_def example_cfg_def example_token_request_def)
next
  have edge: "truthy (cachedSugarToken example_edge) \<and>
      \<not> js_lt example_edge_world
        (js_div example_edge_world
           (JNum (Finite (of_int (dateNow example_edge_world (clockReads example_edge)))))
           (JNum (Finite 1000)))
        (js_sub example_edge_world (sugarTokenExpiresAt example_edge) (JNum (Finite 60)))"
    by (simp add: example_edge_world_def scenario_def example_edge_def example_arith)
  have fresh: "outbound example_edge = []" by (simp add: example_edge_def)
  have call: "getSugarAuthToken example_edge_world example_cfg example_edge =
      (fst (getSugarAuthToken example_edge_world example_cfg example_edge),
       snd (getSugarAuthToken example_edge_world example_cfg example_edge))"
    by simp
  from getSugarAuthToken_cache [OF call] edge
  have "sent_since example_edge (snd (getSugarAuthToken example_edge_world example_cfg example_edge)) =
          [Post (env_tmpl (SUGAR_URL example_cfg) @ ''/rest/v11_10/oauth2/token'')
             (JObj [(''grant_type'', JStr ''password''),
                    (''client_id'', JStr ''sugar''),
                    (''client_secret'', JStr []),
                    (''username'', env_val (SUGAR_USERNAME example_cfg)),
                    (''password'', env_val (SUGAR_PASSWORD example_cfg)),
                    (''platform'',
                     if truthy (env_val (SUGAR_PLATFORM example_cfg)) then env_val (SUGAR_PLATFORM example_cfg)
                     else JStr ''custom_api'')])]"
    by blast
  then have sent: "sent_since example_edge
      (snd (getSugarAuthToken example_edge_world example_cfg example_edge)) = [example_token_request]"
    by (simp add: example_cfg_def example_token_request_def)
  from edge sent
  show "truthy (cachedSugarToken example_edge)
    \<and> \<not> js_lt example_edge_world
         (js_div example_edge_world
            (JNum (Finite (of_int (dateNow example_edge_world (clockReads example_edge)))))
            (JNum (Finite 1000)))
         (js_sub example_edge_world (sugarTokenExpiresAt example_edge) (JNum (Finite 60)))
    \<and> fst (getSugarAuthToken example_edge_world example_cfg example_edge) = Inr (JStr ''crm-token'')
    \<and> sent_since example_edge (snd (getSugarAuthToken example_edge_world example_cfg example_edge)) =
         [example_token_request]
    \<and> sugarTokenExpiresAt (snd (getSugarAuthToken example_edge_world example_cfg example_edge)) =
         JNum (Finite (7130331900001911 / 4194304))"
    by (simp add: example_edge_call)
qed

text \<open>
  C8. When a call of \<^verbatim>\<open>getSugarAuthToken\<close> throws, the two cache variables are what they
  were before the call, and the error thrown is the one of the token request, or the
  TypeError of reading \<^verbatim>\<open>access_token\<close> from a response without a body; a token request
  that fails makes the call throw that error; and the cache variables change only when the
  token request succeeded.
\<close>

theorem getSugarAuthToken_failure_keeps_cache:
  assumes "getSugarAuthToken w cfg s = (r, s1)"
  shows "(\<forall>err. r = Inl err \<longrightarrow>
            cachedSugarToken s1 = cachedSugarToken s \<and>
            sugarTokenExpiresAt s1 = sugarTokenExpiresAt s \<and>
            (axios w (length (outbound s)) (sugarTokenRequest cfg) = Inl err \<or>
             (\<exists>data. axios w (length (outbound s)) (sugarTokenRequest cfg) = Inr data \<and>
                     get_prop data ''access_token'' = Inl err)))
       \<and> (\<forall>err. \<not> in_window w (cachedSugarToken s) (sugarTokenExpiresAt s) (clockReads s) \<and>
                 axios w (length (outbound s)) (sugarTokenRequest cfg) = Inl err \<longrightarrow>
                 r = Inl err)
       \<and> (cachedSugarToken s1 \<noteq> cachedSugarToken s \<or> sugarTokenExpiresAt s1 \<noteq> sugarTokenExpiresAt s \<longrightarrow>
            (\<exists>data. axios w (length (outbound s)) (sugarTokenRequest cfg) = Inr data \<and>
                  sent_since s s1 = [sugarTokenRequest cfg] \<and>
                  r = Inr (own_prop data ''access_token'')))"
proof (cases "in_window w (cachedSugarToken s) (sugarTokenExpiresAt s) (clockReads s)")
  case True
  with assms have "r = Inr (cachedSugarToken s)" "s1 = s\<lparr>clockReads := Suc (clockReads s)\<rparr>"
    by (simp_all add: getSugarAuthToken_hit)
  with True show ?thesis by simp
next
  case False
  show ?thesis
  proof (cases "axios w (length (outbound s)) (sugarTokenRequest cfg)")
    case (Inl err)
    with False assms show ?thesis
      by (auto simp: getSugarAuthToken_miss send_def)
  next
    case (Inr data)
    show ?thesis
    proof (cases "get_prop data ''access_token''")
      case (Inl err)
      with Inr False assms show ?thesis
        by (auto simp: getSugarAuthToken_miss send_def)
    next
      case token: (Inr token)
      then have "token = own_prop data ''access_token''"
        by (cases data) auto
      with token Inr False assms show ?thesis
        by (auto simp: getSugarAuthToken_miss send_def sent_since_def)
    qed
  qed
qed

text \<open>The CRM refuses the credentials while the cache holds an expired token.\<close>

theorem getSugarAuthToken_failure_keeps_cache_witness:
  "getSugarAuthToken (scenario example_clock (Inl (Error ''Request failed with status code 401''))
       (Inr example_contact) (Inr JNull) (Inr JNull) (Inr JNull)) example_cfg example_stale =
     (Inl (Error ''Request failed with status code 401''),
      example_stale\<lparr>clockReads := 1, outbound := [example_token_request]\<rparr>)
   \<and> cachedSugarToken (example_stale\<lparr>clockReads := 1, outbound := [example_token_request]\<rparr>)
       = JStr ''old-token''
   \<and> sugarTokenExpiresAt (example_stale\<lparr>clockReads := 1, outbound := [example_token_request]\<rparr>)
       = JNum (Finite 1600000000)"
proof -
  let ?w = "scenario example_clock (Inl (Error ''Request failed with status code 401''))
              (Inr example_contact) (Inr JNull) (Inr JNull) (Inr JNull)"
  have run: "getSugarAuthToken ?w example_cfg example_stale =
               (Inl (Error ''Request failed with status code 401''),
                example_stale\<lparr>clockReads := 1, outbound := [example_token_request]\<rparr>)"
    by (simp add: getSugarAuthToken_def Let_def send_def js_or_def
        scenario_def example_clock_def example_stale_def example_cfg_def example_token_request_def
        example_arith)
  from getSugarAuthToken_failure_keeps_cache [OF run] run show ?thesis
    by (simp add: example_stale_def)
qed

text \<open>
  C7. Calls of \<^verbatim>\<open>getSugarAuthToken\<close> repeated while a token is cached and the engine's
  \<^verbatim>\<open>now < expiresAt - 60\<close> holds at every reading of the clock all return the cached value;
  no request is sent and the cache stays as it was. A call at a reading where that test
  fails sends the token request, and when that succeeds with a body the cache holds the
  new token and the new expiry, the engine's \<^verbatim>\<open>now + expires_in\<close>.
\<close>

theorem getSugarAuthToken_idempotent:
  "(truthy (cachedSugarToken s) \<and>
    (\<forall>k<n. js_lt w (js_div w (JNum (Finite (of_int (dateNow w (clockReads s + k))))) (JNum (Finite 1000)))
                   (js_sub w (sugarTokenExpiresAt s) (JNum (Finite 60)))) \<longrightarrow>
      fst (getSugarAuthToken_times n w cfg s) = replicate n (Inr (cachedSugarToken s)) \<and>
      sent_since s (snd (getSugarAuthToken_times n w cfg s)) = [] \<and>
      cachedSugarToken (snd (getSugarAuthToken_times n w cfg s)) = cachedSugarToken s \<and>
      sugarTokenExpiresAt (snd (getSugarAuthToken_times n w cfg s)) = sugarTokenExpiresAt s)
   \<and> (\<not> js_lt w (js_div w (JNum (Finite (of_int (dateNow w (clockReads s))))) (JNum (Finite 1000)))
                 (js_sub w (sugarTokenExpiresAt s) (JNum (Finite 60))) \<longrightarrow>
      sent_since s (snd (getSugarAuthToken w cfg s)) = [sugarTokenRequest cfg] \<and>
      (\<forall>data. axios w (length (outbound s)) (sugarTokenRequest cfg) = Inr data \<and>
               data \<noteq> JUndefined \<and> data \<noteq> JNull \<longrightarrow>
         fst (getSugarAuthToken w cfg s) = Inr (own_prop data ''access_token'') \<and>
         cachedSugarToken (snd (getSugarAuthToken w cfg s)) = own_prop data ''access_token'' \<and>
         sugarTokenExpiresAt (snd (getSugarAuthToken w cfg s)) =
           js_add w (js_div w (JNum (Finite (of_int (dateNow w (clockReads s))))) (JNum (Finite 1000)))
                    (own_prop data ''expires_in'')))"
proof (intro conjI impI)
  assume late: "\<not> js_lt w (js_div w (JNum (Finite (of_int (dateNow w (clockReads s))))) (JNum (Finite 1000)))
                 (js_sub w (sugarTokenExpiresAt s) (JNum (Finite 60)))"
  then have miss: "\<not> in_window w (cachedSugarToken s) (sugarTokenExpiresAt s) (clockReads s)"
    by (simp add: in_window_def now_at_def)
  have sent: "sent_since s (snd (getSugarAuthToken w cfg s)) = [sugarTokenRequest cfg]"
    by (simp add: getSugarAuthToken_miss [OF miss] send_def sent_since_def split: sum.splits)
  have stored: "fst (getSugarAuthToken w cfg s) = Inr (own_prop data ''access_token'') \<and>
            cachedSugarToken (snd (getSugarAuthToken w cfg s)) = own_prop data ''access_token'' \<and>
            sugarTokenExpiresAt (snd (getSugarAuthToken w cfg s)) =
              js_add w (js_div w (JNum (Finite (of_int (dateNow w (clockReads s))))) (JNum (Finite 1000)))
                       (own_prop data ''expires_in'')"
    if "axios w (length (outbound s)) (sugarTokenRequest cfg) = Inr data"
      and "data \<noteq> JUndefined" and "data \<noteq> JNull" for data
  proof -
    from that(2,3) have "get_prop data ''access_token'' = Inr (own_prop data ''access_token'')"
      by (cases data) simp_all
    with that(1) show ?thesis
      by (simp add: getSugarAuthToken_miss [OF miss] now_at_def)
  qed
  from sent stored
  show "sent_since s (snd (getSugarAuthToken w cfg s)) = [sugarTokenRequest cfg]"
    and "\<forall>data. axios w (length (outbound s)) (sugarTokenRequest cfg) = Inr data \<and>
               data \<noteq> JUndefined \<and> data \<noteq> JNull \<longrightarrow>
         fst (getSugarAuthToken w cfg s) = Inr (own_prop data ''access_token'') \<and>
         cachedSugarToken (snd (getSugarAuthToken w cfg s)) = own_prop data ''access_token'' \<and>
         sugarTokenExpiresAt (snd (getSugarAuthToken w cfg s)) =
           js_add w (js_div w (JNum (Finite (of_int (dateNow w (clockReads s))))) (JNum (Finite 1000)))
                    (own_prop data ''expires_in'')"
    by simp_all
next
  assume "truthy (cachedSugarToken s) \<and>
    (\<forall>k<n. js_lt w (js_div w (JNum (Finite (of_int (dateNow w (clockReads s + k))))) (JNum (Finite 1000)))
                   (js_sub w (sugarTokenExpiresAt s) (JNum (Finite 60))))"
  then have "\<forall>k<n. in_window w (cachedSugarToken s) (sugarTokenExpiresAt s) (clockReads s + k)"
    by (simp add: in_window_def now_at_def)
  then have run: "getSugarAuthToken_times n w cfg s =
           (replicate n (Inr (cachedSugarToken s)), s\<lparr>clockReads := clockReads s + n\<rparr>)"
    by (rule getSugarAuthToken_times_in_window)
  show "fst (getSugarAuthToken_times n w cfg s) = replicate n (Inr (cachedSugarToken s))"
    and "sent_since s (snd (getSugarAuthToken_times n w cfg s)) = []"
    and "cachedSugarToken (snd (getSugarAuthToken_times n w cfg s)) = cachedSugarToken s"
    and "sugarTokenExpiresAt (snd (getSugarAuthToken_times n w cfg s)) = sugarTokenExpiresAt s"
    by (simp_all add: run sent_since_def)
qed

text \<open>
  Three calls in the seconds after the token was cached all answer from the cache. A
  call with the expired token of the stale cache fetches the new one, and so does a call
  with a cache whose expiry is sixty seconds after \<^verbatim>\<open>now\<close>, where the test is false in
  binary64.
\<close>

theorem getSugarAuthToken_idempotent_witness:
  "(truthy (cachedSugarToken example_cached)
   \<and> js_lt example_world
        (js_div example_world (JNum (Finite (of_int (dateNow example_world (clockReads example_cached)))))
           (JNum (Finite 1000)))
        (js_sub example_world (sugarTokenExpiresAt example_cached) (JNum (Finite 60)))
   \<and> js_lt example_world
        (js_div example_world (JNum (Finite (of_int (dateNow example_world (clockReads example_cached + 1)))))
           (JNum (Finite 1000)))
        (js_sub example_world (sugarTokenExpiresAt example_cached) (JNum (Finite 60)))
   \<and> js_lt example_world
        (js_div example_world (JNum (Finite (of_int (dateNow example_world (clockReads example_cached + 2)))))
           (JNum (Finite 1000)))
        (js_sub example_world (sugarTokenExpiresAt example_cached) (JNum (Finite 60)))
   \<and> fst (getSugarAuthToken_times 3 example_world example_cfg example_cached) =
        [Inr (JStr ''crm-token''), Inr (JStr ''crm-token''), Inr (JStr ''crm-token'')]
   \<and> sent_since example_cached (snd (getSugarAuthToken_times 3 example_world example_cfg example_cached)) = []
   \<and> \<not> js_lt example_world
        (js_div example_world (JNum (Finite (of_int (dateNow example_world (clockReads example_stale)))))
           (JNum (Finite 1000)))
        (js_sub example_world (sugarTokenExpiresAt example_stale) (JNum (Finite 60)))
   \<and> sent_since example_stale (snd (getSugarAuthToken example_world example_cfg example_stale)) =
        [example_token_request]
   \<and> cachedSugarToken (snd (getSugarAuthToken example_world example_cfg example_stale)) = JStr ''crm-token''
   \<and> sugarTokenExpiresAt (snd (getSugarAuthToken example_world example_cfg example_stale)) =
        JNum (Finite (7130331900010299 / 4194304)))
   \<and> (truthy (cachedSugarToken example_edge)
    \<and> \<not> js_lt example_edge_world
         (js_div example_edge_world
            (JNum (Finite (of_int (dateNow example_edge_world (clockReads example_edge)))))
            (JNum (Finite 1000)))
         (js_sub example_edge_world (sugarTokenExpiresAt example_edge) (JNum (Finite 60)))
    \<and> sent_since example_edge (snd (getSugarAuthToken example_edge_world example_cfg example_edge)) =
         [example_token_request]
    \<and> cachedSugarToken (snd (getSugarAuthToken example_edge_world example_cfg example_edge)) =
         JStr ''crm-token''
    \<and> sugarTokenExpiresAt (snd (getSugarAuthToken example_edge_world example_cfg example_edge)) =
         JNum (Finite (7130331900001911 / 4194304)))"
proof (rule conjI)
  have tok: "truthy (cachedSugarToken example_cached)"
    by (simp add: example_cached_def)
  have w0: "js_lt example_world
        (js_div example_world (JNum (Finite (of_int (dateNow example_world (clockReads example_cached)))))
           (JNum (Finite 1000)))
        (js_sub example_world (sugarTokenExpiresAt example_cached) (JNum (Finite 60)))"
    by (simp add: example_world_def scenario_def example_clock_def example_cached_def example_arith)
  have w1: "js_lt example_world
        (js_div example_world (JNum (Finite (of_int (dateNow example_world (clockReads example_cached + 1)))))
           (JNum (Finite 1000)))
        (js_sub example_world (sugarTokenExpiresAt example_cached) (JNum (Finite 60)))"
    by (simp add: example_world_def scenario_def example_clock_def example_cached_def example_arith)
  have w2: "js_lt example_world
        (js_div example_world (JNum (Finite (of_int (dateNow example_world (clockReads example_cached + 2)))))
           (JNum (Finite 1000)))
        (js_sub example_world (sugarTokenExpiresAt example_cached) (JNum (Finite 60)))"
    by (simp add: example_world_def scenario_def example_clock_def example_cached_def example_arith)
  have window: "\<forall>k<3. js_lt example_world
        (js_div example_world (JNum (Finite (of_int (dateNow example_world (clockReads example_cached + k)))))
           (JNum (Finite 1000)))
        (js_sub example_world (sugarTokenExpiresAt example_cached) (JNum (Finite 60)))"
  proof (intro allI impI)
    fix k :: nat assume "k < 3"
    then consider "k = 0" | "k = 1" | "k = 2" by linarith
    then show "js_lt example_world
        (js_div example_world (JNum (Finite (of_int (dateNow example_world (clockReads example_cached + k)))))
           (JNum (Finite 1000)))
        (js_sub example_world (sugarTokenExpiresAt example_cached) (JNum (Finite 60)))"
      using w0 w1 w2 by cases simp_all
  qed
  have late: "\<not> js_lt example_world
        (js_div example_world (JNum (Finite (of_int (dateNow example_world (clockReads example_stale)))))
           (JNum (Finite 1000)))
        (js_sub example_world (sugarTokenExpiresAt example_stale) (JNum (Finite 60)))"
    by (simp add: example_world_def scenario_def example_clock_def example_stale_def example_arith)
  have refetch: "getSugarAuthToken example_world example_cfg example_stale =
      (Inr (JStr ''crm-token''),
       \<lparr>cachedSugarToken = JStr ''crm-token'',
        sugarTokenExpiresAt = JNum (Finite (7130331900010299 / 4194304)),
        clockReads = 1, outbound = [example_token_request]\<rparr>)"
    by (simp add: getSugarAuthToken_def Let_def send_def js_or_def
        example_world_def scenario_def example_clock_def example_grant_def example_cfg_def
        example_stale_def example_token_request_def example_arith)
  have fresh: "outbound example_stale = []"
    by (simp add: example_stale_def)
  from getSugarAuthToken_idempotent [of example_cached 3 example_world example_cfg]
       getSugarAuthToken_idempotent [of example_stale 0 example_world example_cfg]
       tok w0 w1 w2 window late
  show "truthy (cachedSugarToken example_cached)
   \<and> js_lt example_world
        (js_div example_world (JNum (Finite (of_int (dateNow example_world (clockReads example_cached)))))
           (JNum (Finite 1000)))
        (js_sub example_world (sugarTokenExpiresAt example_cached) (JNum (Finite 60)))
   \<and> js_lt example_world
        (js_div example_world (JNum (Finite (of_int (dateNow example_world (clockReads example_cached + 1)))))
           (JNum (Finite 1000)))
        (js_sub example_world (sugarTokenExpiresAt example_cached) (JNum (Finite 60)))
   \<and> js_lt example_world
        (js_div example_world (JNum (Finite (of_int (dateNow example_world (clockReads example_cached + 2)))))
           (JNum (Finite 1000)))
        (js_sub example_world (sugarTokenExpiresAt example_cached) (JNum (Finite 60)))
   \<and> fst (getSugarAuthToken_times 3 example_world example_cfg example_cached) =
        [Inr (JStr ''crm-token''), Inr (JStr ''crm-token''), Inr (JStr ''crm-token'')]
   \<and> sent_since example_cached (snd (getSugarAuthToken_times 3 example_world example_cfg example_cached)) = []
   \<and> \<not> js_lt example_world
        (js_div example_world (JNum (Finite (of_int (dateNow example_world (clockReads example_stale)))))
           (JNum (Finite 1000)))
        (js_sub example_world (sugarTokenExpiresAt example_stale) (JNum (Finite 60)))
   \<and> sent_since example_stale (snd (getSugarAuthToken example_world example_cfg example_stale)) =
        [example_token_request]
   \<and> cachedSugarToken (snd (getSugarAuthToken example_world example_cfg example_stale)) = JStr ''crm-token''
   \<and> sugarTokenExpiresAt (snd (getSugarAuthToken example_world example_cfg example_stale)) =
        JNum (Finite (7130331900010299 / 4194304))"
    by (simp add: refetch sent_since_def fresh example_cached_def numeral_3_eq_3)
next
  have edge: "truthy (cachedSugarToken example_edge) \<and>
      \<not> js_lt example_edge_world
        (js_div example_edge_world
           (JNum (Finite (of_int (dateNow example_edge_world (clockReads example_edge)))))
           (JNum (Finite 1000)))
        (js_sub example_edge_world (sugarTokenExpiresAt example_edge) (JNum (Finite 60)))"
    by (simp add: example_edge_world_def scenario_def example_edge_def example_arith)
  have fresh: "outbound example_edge = []"
    by (simp add: example_edge_def)
  have request: "sugarTokenRequest example_cfg = example_token_request"
    by (simp add: sugarTokenRequest_def example_cfg_def example_token_request_def js_or_def)
  from getSugarAuthToken_idempotent [of example_edge 0 example_edge_world example_cfg] edge
  have "sent_since example_edge (snd (getSugarAuthToken example_edge_world example_cfg example_edge)) =
          [sugarTokenRequest example_cfg]"
    by simp
  with edge request
  show "truthy (cachedSugarToken example_edge)
    \<and> \<not> js_lt example_edge_world
         (js_div example_edge_world
            (JNum (Finite (of_int (dateNow example_edge_world (clockReads example_edge)))))
            (JNum (Finite 1000)))
         (js_sub example_edge_world (sugarTokenExpiresAt example_edge) (JNum (Finite 60)))
    \<and> sent_since example_edge (snd (getSugarAuthToken example_edge_world example_cfg example_edge)) =
         [example_token_request]
    \<and> cachedSugarToken (snd (getSugarAuthToken example_edge_world example_cfg example_edge)) =
         JStr ''crm-token''
    \<and> sugarTokenExpiresAt (snd (getSugarAuthToken example_edge_world example_cfg example_edge)) =
         JNum (Finite (7130331900001911 / 4194304))"
    by (simp add: example_edge_call)
qed

section \<open>The log of requests\<close>

text \<open>
  The CRM paths contain an underscore (\<^verbatim>\<open>v11_10\<close>) and the postal addresses none, so a
  request to the CRM is never one to a postal endpoint, whatever \<^verbatim>\<open>SUGAR_URL\<close> and the
  identifier are.
\<close>

lemma underscored_not_usps:
  "CHR ''_'' \<in> set url \<Longrightarrow> url \<noteq> uspsTokenUrl \<and> url \<noteq> uspsAddressUrl"
  by (auto simp: uspsTokenUrl_def uspsAddressUrl_def)

lemma sugarTokenRequest_not_postal: "\<not> is_postal (sugarTokenRequest cfg)"
  using underscored_not_usps [of "env_tmpl (SUGAR_URL cfg) @ ''/rest/v11_10/oauth2/token''"]
  by (simp add: sugarTokenRequest_def)

lemma sugarTokenRequest_not_update: "\<not> is_update (sugarTokenRequest cfg)"
  by (simp add: sugarTokenRequest_def)

lemma sugarTokenRequest_not_Get:
  "sugarTokenRequest cfg \<noteq> Get url hs p" "Get url hs p \<noteq> sugarTokenRequest cfg"
  by (simp_all add: sugarTokenRequest_def)

lemma contactUrl_not_usps: "contactUrl cfg ident \<noteq> uspsAddressUrl"
  using underscored_not_usps [of "contactUrl cfg ident"]
  by (simp add: contactUrl_def)

lemma not_postal_Get:
  "\<forall>rq \<in> set xs. \<not> is_postal rq \<Longrightarrow> Get url hs p \<in> set xs \<Longrightarrow> url \<noteq> uspsAddressUrl"
  by auto

text \<open>Segments of the log, and the outcomes that go with them.\<close>

lemma sent_since_append: "outbound s1 = outbound s @ xs \<Longrightarrow> sent_since s s1 = xs"
  by (simp add: sent_since_def)

lemma sent_since_chain:
  assumes "outbound s1 = outbound s @ sent_since s s1"
      and "outbound s2 = outbound s1 @ sent_since s1 s2"
  shows "sent_since s s2 = sent_since s s1 @ sent_since s1 s2"
    and "outbound s2 = outbound s @ sent_since s s2"
proof -
  from assms have "outbound s2 = outbound s @ (sent_since s s1 @ sent_since s1 s2)"
    by simp
  then show "sent_since s s2 = sent_since s s1 @ sent_since s1 s2"
    by (rule sent_since_append)
  with assms show "outbound s2 = outbound s @ sent_since s s2"
    by simp
qed

lemma exchanges_requests: "map fst (exchanges w s s1) = sent_since s s1"
  by (simp add: exchanges_def comp_def case_prod_unfold)

lemma exchanges_same: "exchanges w s s = []"
  by (simp add: exchanges_def sent_since_def)

lemma exchanges_one:
  "outbound s1 = outbound s @ [rq] \<Longrightarrow> exchanges w s s1 = [(rq, axios w (length (outbound s)) rq)]"
  by (simp add: exchanges_def sent_since_def)

lemma exchanges_chain:
  assumes "outbound s1 = outbound s @ sent_since s s1"
      and "outbound s2 = outbound s1 @ sent_since s1 s2"
  shows "exchanges w s s2 = exchanges w s s1 @ exchanges w s1 s2"
proof -
  have "length (outbound s1) = length (outbound s) + length (sent_since s s1)"
    using assms(1) by (metis length_append)
  then show ?thesis
    by (simp add: exchanges_def sent_since_chain(1) [OF assms] enumerate_append_eq)
qed

lemma in_exchanges_sent: "(rq, out) \<in> set (exchanges w s s1) \<Longrightarrow> rq \<in> set (sent_since s s1)"
  using exchanges_requests [of w s s1] by (metis fst_conv image_eqI set_map)

text \<open>What each function sends, and that a rejected request makes it throw.\<close>

lemma getSugarAuthToken_log:
  assumes "getSugarAuthToken w cfg s = (r, s1)"
  shows "outbound s1 = outbound s @ sent_since s s1"
    and "sent_since s s1 = [] \<or> sent_since s s1 = [sugarTokenRequest cfg]"
    and "\<forall>rq err. (rq, Inl err) \<in> set (exchanges w s s1) \<longrightarrow> r = Inl err"
proof -
  show out: "outbound s1 = outbound s @ sent_since s s1"
    and "sent_since s s1 = [] \<or> sent_since s s1 = [sugarTokenRequest cfg]"
    using assms
    by (auto simp: getSugarAuthToken_def Let_def send_def sent_since_def sugarTokenRequest_def
        split: if_splits sum.splits)
  show "\<forall>rq err. (rq, Inl err) \<in> set (exchanges w s s1) \<longrightarrow> r = Inl err"
  proof (cases "in_window w (cachedSugarToken s) (sugarTokenExpiresAt s) (clockReads s)")
    case True
    with assms have "outbound s1 = outbound s"
      by (auto simp: getSugarAuthToken_hit)
    then show ?thesis by (simp add: exchanges_def sent_since_def)
  next
    case False
    with assms have "outbound s1 = outbound s @ [sugarTokenRequest cfg]"
      by (auto simp: getSugarAuthToken_miss send_def split: sum.splits)
    then have "exchanges w s s1 =
        [(sugarTokenRequest cfg, axios w (length (outbound s)) (sugarTokenRequest cfg))]"
      by (rule exchanges_one)
    with False assms show ?thesis
      by (auto simp: getSugarAuthToken_miss split: sum.splits)
  qed
qed

lemma getSugarContact_log:
  assumes "getSugarContact w cfg ident s = (r, s1)"
  shows "outbound s1 = outbound s @ sent_since s s1"
    and "\<forall>rq \<in> set (sent_since s s1). \<not> is_postal rq \<and> \<not> is_update rq"
    and "\<forall>rq err. (rq, Inl err) \<in> set (exchanges w s s1) \<longrightarrow> r = Inl err"
    and "\<forall>contact. r = Inr contact \<longrightarrow>
           (\<exists>token. (Get (contactUrl cfg ident) [(''OAuth-Token'', Raw token)] JUndefined, Inr contact)
                      \<in> set (exchanges w s s1))"
    and "\<forall>url hs p out. (Get url hs p, out) \<in> set (exchanges w s s1) \<longrightarrow> r = out"
proof -
  obtain t s0 where tok: "getSugarAuthToken w cfg s = (t, s0)"
    by (cases "getSugarAuthToken w cfg s")
  note log = getSugarAuthToken_log [OF tok]
  from log(2) have plain0: "\<forall>rq \<in> set (sent_since s s0). \<not> is_postal rq \<and> \<not> is_update rq"
    by (auto simp: sugarTokenRequest_not_postal sugarTokenRequest_not_update)
  from log(2) have noget0: "\<forall>url hs p out. (Get url hs p, out) \<notin> set (exchanges w s s0)"
    by (auto dest!: in_exchanges_sent simp: sugarTokenRequest_not_Get)
  have "outbound s1 = outbound s @ sent_since s s1 \<and>
        (\<forall>rq \<in> set (sent_since s s1). \<not> is_postal rq \<and> \<not> is_update rq) \<and>
        (\<forall>rq err. (rq, Inl err) \<in> set (exchanges w s s1) \<longrightarrow> r = Inl err) \<and>
        (\<forall>contact. r = Inr contact \<longrightarrow>
           (\<exists>token. (Get (contactUrl cfg ident) [(''OAuth-Token'', Raw token)] JUndefined, Inr contact)
                      \<in> set (exchanges w s s1))) \<and>
        (\<forall>url hs p out. (Get url hs p, out) \<in> set (exchanges w s s1) \<longrightarrow> r = out)"
  proof (cases t)
    case (Inl err)
    with tok assms have "s1 = s0" "r = Inl err" by (simp_all add: getSugarContact_def)
    with log plain0 noget0 Inl show ?thesis by simp
  next
    case (Inr token)
    let ?rq = "Get (contactUrl cfg ident) [(''OAuth-Token'', Raw token)] JUndefined"
    from tok Inr assms have s1: "s1 = send ?rq s0" and r: "r = axios w (length (outbound s0)) ?rq"
      by (simp_all add: getSugarContact_def Let_def contactUrl_def)
    from s1 have step: "outbound s1 = outbound s0 @ sent_since s0 s1"
      and one: "sent_since s0 s1 = [?rq]"
      by (simp_all add: send_def sent_since_def)
    from s1 r have ex1: "exchanges w s0 s1 = [(?rq, r)]"
      by (simp add: send_def exchanges_one)
    from log(1) step have since: "sent_since s s1 = sent_since s s0 @ sent_since s0 s1"
      and out: "outbound s1 = outbound s @ sent_since s s1"
      by (rule sent_since_chain)+
    from log(1) step have ex: "exchanges w s s1 = exchanges w s s0 @ exchanges w s0 s1"
      by (rule exchanges_chain)
    from Inr log(3) have accepted: "\<forall>rq err. (rq, Inl err) \<notin> set (exchanges w s s0)"
      by auto
    have a: "\<forall>rq \<in> set (sent_since s s1). \<not> is_postal rq \<and> \<not> is_update rq"
      using plain0 by (auto simp: since one contactUrl_not_usps)
    have b: "\<forall>rq err. (rq, Inl err) \<in> set (exchanges w s s1) \<longrightarrow> r = Inl err"
      using accepted by (auto simp: ex ex1)
    have c: "\<forall>contact. r = Inr contact \<longrightarrow>
           (\<exists>token. (Get (contactUrl cfg ident) [(''OAuth-Token'', Raw token)] JUndefined, Inr contact)
                      \<in> set (exchanges w s s1))"
      by (auto simp: ex ex1)
    have d: "\<forall>url hs p out. (Get url hs p, out) \<in> set (exchanges w s s1) \<longrightarrow> r = out"
      using noget0 by (auto simp: ex ex1)
    from out a b c d show ?thesis by simp
  qed
  then show "outbound s1 = outbound s @ sent_since s s1"
    and "\<forall>rq \<in> set (sent_since s s1). \<not> is_postal rq \<and> \<not> is_update rq"
    and "\<forall>rq err. (rq, Inl err) \<in> set (exchanges w s s1) \<longrightarrow> r = Inl err"
    and "\<forall>contact. r = Inr contact \<longrightarrow>
           (\<exists>token. (Get (contactUrl cfg ident) [(''OAuth-Token'', Raw token)] JUndefined, Inr contact)
                      \<in> set (exchanges w s s1))"
    and "\<forall>url hs p out. (Get url hs p, out) \<in> set (exchanges w s s1) \<longrightarrow> r = out"
    by simp_all
qed
lemma getUSPSAccessToken_log:
  assumes "getUSPSAccessToken w cfg s = (r, s1)"
  shows "\<exists>data. outbound s1 = outbound s @ [Post uspsTokenUrl data]"
    and "\<forall>rq err. (rq, Inl err) \<in> set (exchanges w s s1) \<longrightarrow> r = Inl err"
proof -
  let ?rq = "Post ''https://apis-tem.usps.com/oauth2/v3/token''
                 (JObj [(''client_id'', env_val (USPS_CLIENT_ID cfg)),
                        (''client_secret'', env_val (USPS_CLIENT_SECRET cfg)),
                        (''grant_type'', JStr ''client_credentials'')])"
  from assms have out: "outbound s1 = outbound s @ [?rq]"
    by (auto simp: getUSPSAccessToken_def Let_def send_def split: sum.splits)
  then show "\<exists>data. outbound s1 = outbound s @ [Post uspsTokenUrl data]"
    by (simp add: uspsTokenUrl_def)
  from out have "exchanges w s s1 = [(?rq, axios w (length (outbound s)) ?rq)]"
    by (rule exchanges_one)
  with assms show "\<forall>rq err. (rq, Inl err) \<in> set (exchanges w s s1) \<longrightarrow> r = Inl err"
    by (auto simp: getUSPSAccessToken_def Let_def split: sum.splits)
qed

lemma standardize_log:
  assumes "standardize w cfg params s = (r, s1)"
  shows "outbound s1 = outbound s @ sent_since s s1"
    and "\<forall>rq \<in> set (sent_since s s1). \<not> is_update rq"
    and "\<forall>url hs p. Get url hs p \<in> set (sent_since s s1) \<longrightarrow> url = uspsAddressUrl \<and> p = params"
    and "\<forall>data. r = Inr data \<longrightarrow> (\<exists>hs. Get uspsAddressUrl hs params \<in> set (sent_since s s1))"
    and "\<forall>rq err. (rq, Inl err) \<in> set (exchanges w s s1) \<longrightarrow> r = Inl err"
proof -
  obtain t s0 where tok: "getUSPSAccessToken w cfg s = (t, s0)"
    by (cases "getUSPSAccessToken w cfg s")
  from getUSPSAccessToken_log [OF tok] obtain data
    where out0: "outbound s0 = outbound s @ [Post uspsTokenUrl data]"
      and rej0: "\<forall>rq err. (rq, Inl err) \<in> set (exchanges w s s0) \<longrightarrow> t = Inl err"
    by blast
  from out0 have since0: "sent_since s s0 = [Post uspsTokenUrl data]"
    by (rule sent_since_append)
  with out0 have step0: "outbound s0 = outbound s @ sent_since s s0" by simp
  have "outbound s1 = outbound s @ sent_since s s1 \<and>
        (\<forall>rq \<in> set (sent_since s s1). \<not> is_update rq) \<and>
        (\<forall>url hs p. Get url hs p \<in> set (sent_since s s1) \<longrightarrow> url = uspsAddressUrl \<and> p = params) \<and>
        (\<forall>data. r = Inr data \<longrightarrow> (\<exists>hs. Get uspsAddressUrl hs params \<in> set (sent_since s s1))) \<and>
        (\<forall>rq err. (rq, Inl err) \<in> set (exchanges w s s1) \<longrightarrow> r = Inl err)"
  proof (cases t)
    case (Inl err)
    with tok assms have "s1 = s0" "r = Inl err" by (simp_all add: standardize_def)
    with step0 since0 rej0 Inl show ?thesis by simp
  next
    case (Inr token)
    let ?rq = "Get uspsAddressUrl
                 [(''Authorization'', Bearer token), (''Accept'', Raw (JStr ''application/json''))]
                 params"
    from tok Inr assms have s1: "s1 = send ?rq s0" and r: "r = axios w (length (outbound s0)) ?rq"
      by (simp_all add: standardize_def Let_def uspsAddressUrl_def)
    from s1 have step: "outbound s1 = outbound s0 @ sent_since s0 s1"
      and one: "sent_since s0 s1 = [?rq]"
      by (simp_all add: send_def sent_since_def)
    from s1 r have ex1: "exchanges w s0 s1 = [(?rq, r)]"
      by (simp add: send_def exchanges_one)
    from step0 step have since: "sent_since s s1 = sent_since s s0 @ sent_since s0 s1"
      and out: "outbound s1 = outbound s @ sent_since s s1"
      by (rule sent_since_chain)+
    from step0 step have ex: "exchanges w s s1 = exchanges w s s0 @ exchanges w s0 s1"
      by (rule exchanges_chain)
    from Inr rej0 have accepted: "\<forall>rq err. (rq, Inl err) \<notin> set (exchanges w s s0)"
      by auto
    have b: "\<forall>rq err. (rq, Inl err) \<in> set (exchanges w s s1) \<longrightarrow> r = Inl err"
      using accepted by (auto simp: ex ex1)
    from out b show ?thesis
      by (simp add: since since0 one)
  qed
  then show "outbound s1 = outbound s @ sent_since s s1"
    and "\<forall>rq \<in> set (sent_since s s1). \<not> is_update rq"
    and "\<forall>url hs p. Get url hs p \<in> set (sent_since s s1) \<longrightarrow> url = uspsAddressUrl \<and> p = params"
    and "\<forall>data. r = Inr data \<longrightarrow> (\<exists>hs. Get uspsAddressUrl hs params \<in> set (sent_since s s1))"
    and "\<forall>rq err. (rq, Inl err) \<in> set (exchanges w s s1) \<longrightarrow> r = Inl err"
    by simp_all
qed

lemma updateSugarContact_log:
  assumes "updateSugarContact w cfg ident data s = (r, s1)"
  shows "outbound s1 = outbound s @ sent_since s s1"
    and "\<forall>rq \<in> set (sent_since s s1). \<not> is_postal rq"
    and "\<forall>rq \<in> set (sent_since s s1). is_update rq \<longrightarrow>
           (\<exists>token. rq = Put (contactUrl cfg ident) data [(''OAuth-Token'', Raw token)])"
    and "r = Inr () \<longrightarrow> length (filter is_update (sent_since s s1)) = 1"
    and "\<forall>rq err. (rq, Inl err) \<in> set (exchanges w s s1) \<longrightarrow> r = Inl err"
    and "\<forall>url hs p. Get url hs p \<notin> set (sent_since s s1)"
proof -
  obtain t s0 where tok: "getSugarAuthToken w cfg s = (t, s0)"
    by (cases "getSugarAuthToken w cfg s")
  note log = getSugarAuthToken_log [OF tok]
  from log(2) have plain0: "\<forall>rq \<in> set (sent_since s s0). \<not> is_postal rq \<and> \<not> is_update rq"
    by (auto simp: sugarTokenRequest_not_postal sugarTokenRequest_not_update)
  then have nofilter: "filter is_update (sent_since s s0) = []"
    by (simp add: filter_empty_conv)
  from log(2) have noget0: "\<forall>url hs p. Get url hs p \<notin> set (sent_since s s0)"
    by (auto simp: sugarTokenRequest_not_Get)
  have "outbound s1 = outbound s @ sent_since s s1 \<and>
        (\<forall>rq \<in> set (sent_since s s1). \<not> is_postal rq) \<and>
        (\<forall>rq \<in> set (sent_since s s1). is_update rq \<longrightarrow>
           (\<exists>token. rq = Put (contactUrl cfg ident) data [(''OAuth-Token'', Raw token)])) \<and>
        (r = Inr () \<longrightarrow> length (filter is_update (sent_since s s1)) = 1) \<and>
        (\<forall>rq err. (rq, Inl err) \<in> set (exchanges w s s1) \<longrightarrow> r = Inl err) \<and>
        (\<forall>url hs p. Get url hs p \<notin> set (sent_since s s1))"
  proof (cases t)
    case (Inl err)
    with tok assms have "s1 = s0" "r = Inl err" by (simp_all add: updateSugarContact_def)
    with log plain0 noget0 Inl show ?thesis by simp
  next
    case (Inr token)
    let ?rq = "Put (contactUrl cfg ident) data [(''OAuth-Token'', Raw token)]"
    from tok Inr assms have s1: "s1 = send ?rq s0"
      by (auto simp: updateSugarContact_def Let_def contactUrl_def split: sum.splits)
    from tok Inr assms have r: "\<forall>err. axios w (length (outbound s0)) ?rq = Inl err \<longrightarrow> r = Inl err"
      by (auto simp: updateSugarContact_def Let_def contactUrl_def split: sum.splits)
    from s1 have step: "outbound s1 = outbound s0 @ sent_since s0 s1"
      and one: "sent_since s0 s1 = [?rq]"
      by (simp_all add: send_def sent_since_def)
    from s1 have ex1: "exchanges w s0 s1 = [(?rq, axios w (length (outbound s0)) ?rq)]"
      by (simp add: send_def exchanges_one)
    from log(1) step have since: "sent_since s s1 = sent_since s s0 @ sent_since s0 s1"
      and out: "outbound s1 = outbound s @ sent_since s s1"
      by (rule sent_since_chain)+
    from log(1) step have ex: "exchanges w s s1 = exchanges w s s0 @ exchanges w s0 s1"
      by (rule exchanges_chain)
    from Inr log(3) have accepted: "\<forall>rq err. (rq, Inl err) \<notin> set (exchanges w s s0)"
      by auto
    have a: "\<forall>rq \<in> set (sent_since s s1). \<not> is_postal rq"
      using plain0 by (auto simp: since one)
    have b: "\<forall>rq \<in> set (sent_since s s1). is_update rq \<longrightarrow>
           (\<exists>token. rq = Put (contactUrl cfg ident) data [(''OAuth-Token'', Raw token)])"
      using plain0 by (auto simp: since one)
    have c: "length (filter is_update (sent_since s s1)) = 1"
      using nofilter by (simp add: since one)
    have d: "\<forall>rq err. (rq, Inl err) \<in> set (exchanges w s s1) \<longrightarrow> r = Inl err"
      using accepted r by (auto simp: ex ex1)
    have e: "\<forall>url hs p. Get url hs p \<notin> set (sent_since s s1)"
      using noget0 by (simp add: since one)
    from out a b c d e show ?thesis by simp
  qed
  then show "outbound s1 = outbound s @ sent_since s s1"
    and "\<forall>rq \<in> set (sent_since s s1). \<not> is_postal rq"
    and "\<forall>rq \<in> set (sent_since s s1). is_update rq \<longrightarrow>
           (\<exists>token. rq = Put (contactUrl cfg ident) data [(''OAuth-Token'', Raw token)])"
    and "r = Inr () \<longrightarrow> length (filter is_update (sent_since s s1)) = 1"
    and "\<forall>rq err. (rq, Inl err) \<in> set (exchanges w s s1) \<longrightarrow> r = Inl err"
    and "\<forall>url hs p. Get url hs p \<notin> set (sent_since s s1)"
    by simp_all
qed

section \<open>Facts about the handler\<close>


lemma get_prop_Inr: "get_prop v k = Inr x \<Longrightarrow> x = own_prop v k \<and> v \<noteq> JUndefined \<and> v \<noteq> JNull"
  by (cases v) auto

text \<open>What \<^verbatim>\<open>|| ''\<close> yields, and the parameters built from a contact.\<close>

lemma js_or_empty:
  "js_or v (JStr []) = (if truthy v then v else JStr [])"
  "js_or v (JStr []) \<noteq> JUndefined"
  "js_or v (JStr []) \<noteq> JNull"
  "v = JUndefined \<or> v = JNull \<Longrightarrow> js_or v (JStr []) = JStr []"
  by (cases v; auto simp: js_or_def)+

lemma build_params_Inr:
  assumes "build_params contact = Inr params"
  shows "params =
           JObj [(''streetAddress'', js_or (own_prop contact ''primary_address_street'') (JStr [])),
                 (''secondaryAddress'', js_or (own_prop contact ''mailing_address_2_c'') (JStr [])),
                 (''city'', js_or (own_prop contact ''primary_address_city'') (JStr [])),
                 (''state'', js_or (own_prop contact ''primary_address_state'') (JStr [])),
                 (''ZIPCode'', js_or (own_prop contact ''primary_address_postalcode'') (JStr []))]"
    and "contact \<noteq> JUndefined" and "contact \<noteq> JNull"
  using assms by (auto simp: build_params_def split: sum.splits dest: get_prop_Inr)

lemma build_update_Inr:
  "build_update corrected = Inr update \<Longrightarrow>
   update = JObj [(''primary_address_street'', own_prop corrected ''streetAddressAbbreviation''),
                  (''primary_address_city'', own_prop corrected ''city''),
                  (''primary_address_state'', own_prop corrected ''state''),
                  (''primary_address_postalcode'', own_prop corrected ''ZIPCode''),
                  (''address_validation_status_c'', JStr ''Validated'')]
   \<and> corrected \<noteq> JUndefined \<and> corrected \<noteq> JNull"
  by (auto simp: build_update_def split: sum.splits dest: get_prop_Inr)

text \<open>What one run of the handler sends, stage by stage.\<close>

lemma write_back_log:
  assumes "write_back w cfg recordId data s = (r, s1)"
  shows "outbound s1 = outbound s @ sent_since s s1"
    and "\<forall>rq \<in> set (sent_since s s1). \<not> is_postal rq"
    and "\<forall>rq \<in> set (sent_since s s1). is_update rq \<longrightarrow>
            (\<exists>update token. build_update (own_prop data ''address'') = Inr update \<and>
               rq = Put (contactUrl cfg recordId) update [(''OAuth-Token'', Raw token)])"
    and "\<forall>res. r = Inr res \<longrightarrow>
            res = \<lparr>status = 200,
                   body = ''<h3>Address validated and updated for Contact ID: ''
                          @ query_string recordId @ ''</h3>''\<rparr> \<and>
            length (filter is_update (sent_since s s1)) = 1"
    and "\<forall>rq err. (rq, Inl err) \<in> set (exchanges w s s1) \<longrightarrow> r = Inl err"
    and "\<forall>url hs p. Get url hs p \<notin> set (sent_since s s1)"
proof -
  have "outbound s1 = outbound s @ sent_since s s1 \<and>
        (\<forall>rq \<in> set (sent_since s s1). \<not> is_postal rq) \<and>
        (\<forall>rq \<in> set (sent_since s s1). is_update rq \<longrightarrow>
            (\<exists>update token. build_update (own_prop data ''address'') = Inr update \<and>
               rq = Put (contactUrl cfg recordId) update [(''OAuth-Token'', Raw token)])) \<and>
        (\<forall>res. r = Inr res \<longrightarrow>
            res = \<lparr>status = 200,
                   body = ''<h3>Address validated and updated for Contact ID: ''
                          @ query_string recordId @ ''</h3>''\<rparr> \<and>
            length (filter is_update (sent_since s s1)) = 1) \<and>
        (\<forall>rq err. (rq, Inl err) \<in> set (exchanges w s s1) \<longrightarrow> r = Inl err) \<and>
        (\<forall>url hs p. Get url hs p \<notin> set (sent_since s s1))"
  proof (cases "get_prop data ''address''")
    case (Inl err)
    with assms have "s1 = s" "r = Inl err" by (simp_all add: write_back_def)
    then show ?thesis by (simp add: sent_since_def exchanges_same)
  next
    case corrected: (Inr corrected)
    then have addr: "corrected = own_prop data ''address''"
      by (simp add: get_prop_Inr)
    show ?thesis
    proof (cases "build_update corrected")
      case (Inl err)
      with corrected assms have "s1 = s" "r = Inl err" by (simp_all add: write_back_def)
      then show ?thesis by (simp add: sent_since_def exchanges_same)
    next
      case update: (Inr update)
      obtain u s0 where upd: "updateSugarContact w cfg recordId update s = (u, s0)"
        by (cases "updateSugarContact w cfg recordId update s")
      note log = updateSugarContact_log [OF upd]
      from assms corrected update upd have s1: "s1 = s0"
        by (cases u) (simp_all add: write_back_def)
      from assms corrected update upd have r:
        "\<forall>res. r = Inr res \<longrightarrow> u = Inr () \<and>
            res = \<lparr>status = 200,
                   body = ''<h3>Address validated and updated for Contact ID: ''
                          @ query_string recordId @ ''</h3>''\<rparr>"
        by (cases u) (auto simp: write_back_def)
      from assms corrected update upd have thrown: "\<forall>err. u = Inl err \<longrightarrow> r = Inl err"
        by (cases u) (auto simp: write_back_def)
      from update addr have built: "build_update (own_prop data ''address'') = Inr update"
        by simp
      have upds: "\<forall>rq \<in> set (sent_since s s1). is_update rq \<longrightarrow>
            (\<exists>update token. build_update (own_prop data ''address'') = Inr update \<and>
               rq = Put (contactUrl cfg recordId) update [(''OAuth-Token'', Raw token)])"
      proof (intro ballI impI)
        fix rq assume "rq \<in> set (sent_since s s1)" "is_update rq"
        with log(3) s1 obtain token
          where "rq = Put (contactUrl cfg recordId) update [(''OAuth-Token'', Raw token)]"
          by auto
        with built show "\<exists>update token. build_update (own_prop data ''address'') = Inr update \<and>
               rq = Put (contactUrl cfg recordId) update [(''OAuth-Token'', Raw token)]"
          by (intro exI conjI)
      qed
      from log(1,2,4,5,6) s1 r thrown upds show ?thesis
        by simp
    qed
  qed
  then show "outbound s1 = outbound s @ sent_since s s1"
    and "\<forall>rq \<in> set (sent_since s s1). \<not> is_postal rq"
    and "\<forall>rq \<in> set (sent_since s s1). is_update rq \<longrightarrow>
            (\<exists>update token. build_update (own_prop data ''address'') = Inr update \<and>
               rq = Put (contactUrl cfg recordId) update [(''OAuth-Token'', Raw token)])"
    and "\<forall>res. r = Inr res \<longrightarrow>
            res = \<lparr>status = 200,
                   body = ''<h3>Address validated and updated for Contact ID: ''
                          @ query_string recordId @ ''</h3>''\<rparr> \<and>
            length (filter is_update (sent_since s s1)) = 1"
    and "\<forall>rq err. (rq, Inl err) \<in> set (exchanges w s s1) \<longrightarrow> r = Inl err"
    and "\<forall>url hs p. Get url hs p \<notin> set (sent_since s s1)"
    by simp_all
qed
lemma try_block_log:
  assumes "try_block w cfg recordId s = (r, s')"
  shows "outbound s' = outbound s @ sent_since s s'"
    and "\<forall>rq err. (rq, Inl err) \<in> set (exchanges w s s') \<longrightarrow> r = Inl err"
    and "\<forall>rq \<in> set (sent_since s s'). is_update rq \<longrightarrow>
            (\<exists>corrected update token. build_update corrected = Inr update \<and>
               rq = Put (contactUrl cfg recordId) update [(''OAuth-Token'', Raw token)])"
    and "\<forall>hs p. Get uspsAddressUrl hs p \<in> set (sent_since s s') \<longrightarrow>
            (\<exists>contact token.
               (Get (contactUrl cfg recordId) [(''OAuth-Token'', Raw token)] JUndefined, Inr contact)
                 \<in> set (exchanges w s s') \<and>
               fst (getSugarContact w cfg recordId s) = Inr contact \<and>
               build_params contact = Inr p)"
    and "\<forall>res. r = Inr res \<and> status res = 200 \<longrightarrow>
            length (filter is_update (sent_since s s')) = 1"
    and "\<forall>hs p err. (Get (contactUrl cfg recordId) hs p, Inl err) \<in> set (exchanges w s s') \<longrightarrow>
            (\<forall>rq \<in> set (sent_since s s'). \<not> is_postal rq \<and> \<not> is_update rq)"
    and "\<forall>rq err. exchanges w s s' \<noteq> [] \<and> hd (exchanges w s s') = (rq, Inl err) \<longrightarrow>
            (\<forall>rq \<in> set (sent_since s s'). \<not> is_postal rq \<and> \<not> is_update rq)"
proof -
  obtain c s1 where fetch: "getSugarContact w cfg recordId s = (c, s1)"
    by (cases "getSugarContact w cfg recordId s")
  note log1 = getSugarContact_log [OF fetch]
  from log1(2) have noget1: "\<forall>hs p. Get uspsAddressUrl hs p \<notin> set (sent_since s s1)"
    by (auto dest: not_postal_Get)
  have goal: "outbound s' = outbound s @ sent_since s s' \<and>
    (\<forall>rq err. (rq, Inl err) \<in> set (exchanges w s s') \<longrightarrow> r = Inl err) \<and>
    (\<forall>rq \<in> set (sent_since s s'). is_update rq \<longrightarrow>
            (\<exists>corrected update token. build_update corrected = Inr update \<and>
               rq = Put (contactUrl cfg recordId) update [(''OAuth-Token'', Raw token)])) \<and>
    (\<forall>hs p. Get uspsAddressUrl hs p \<in> set (sent_since s s') \<longrightarrow>
            (\<exists>contact token.
               (Get (contactUrl cfg recordId) [(''OAuth-Token'', Raw token)] JUndefined, Inr contact)
                 \<in> set (exchanges w s s') \<and>
               fst (getSugarContact w cfg recordId s) = Inr contact \<and>
               build_params contact = Inr p)) \<and>
    (\<forall>res. r = Inr res \<and> status res = 200 \<longrightarrow>
            length (filter is_update (sent_since s s')) = 1) \<and>
    (\<forall>hs p err. (Get (contactUrl cfg recordId) hs p, Inl err) \<in> set (exchanges w s s') \<longrightarrow>
            (\<forall>rq \<in> set (sent_since s s'). \<not> is_postal rq \<and> \<not> is_update rq)) \<and>
    (\<forall>rq err. exchanges w s s' \<noteq> [] \<and> hd (exchanges w s s') = (rq, Inl err) \<longrightarrow>
            (\<forall>rq \<in> set (sent_since s s'). \<not> is_postal rq \<and> \<not> is_update rq))"
    (is "?out \<and> ?rej \<and> ?upd \<and> ?par \<and> ?one \<and> ?get \<and> ?first")
  proof -
    have early: ?thesis
      if stop: "s' = s1" and same: "\<forall>err. c = Inl err \<longrightarrow> r = Inl err"
        and no200: "\<forall>res. r = Inr res \<longrightarrow> status res \<noteq> 200"
    proof -
      from log1(3) same have "\<forall>rq err. (rq, Inl err) \<in> set (exchanges w s s1) \<longrightarrow> r = Inl err"
        by blast
      with log1(1,2) noget1 no200 show ?thesis
        unfolding stop by simp
    qed
    show ?thesis
    proof (cases c)
      case (Inl err)
      with fetch assms have "s' = s1" "r = Inl err" by (simp_all add: try_block_def)
      with Inl show ?thesis by (intro early) simp_all
    next
      case contact: (Inr contact)
      from log1(3) contact have accepted1: "\<forall>rq err. (rq, Inl err) \<notin> set (exchanges w s s1)"
        by auto
      from log1(4) contact obtain token
        where raw: "(Get (contactUrl cfg recordId) [(''OAuth-Token'', Raw token)] JUndefined, Inr contact)
                      \<in> set (exchanges w s s1)"
        by blast
      then have nonempty1: "exchanges w s s1 \<noteq> []" by auto
      from fetch contact have fetched: "fst (getSugarContact w cfg recordId s) = Inr contact"
        by simp
      show ?thesis
      proof (cases "build_params contact")
        case (Inl err)
        with fetch contact assms have "s' = s1" "r = Inl err" by (simp_all add: try_block_def)
        with contact show ?thesis by (intro early) simp_all
      next
        case params: (Inr params)
        show ?thesis
        proof (cases "missing_required params")
          case True
          with fetch contact params assms have "s' = s1"
            "r = Inr \<lparr>status = 400, body = ''Missing one or more required address fields''\<rparr>"
            by (simp_all add: try_block_def)
          with contact show ?thesis by (intro early) auto
        next
          case False
          obtain d s2 where std: "standardize w cfg params s1 = (d, s2)"
            by (cases "standardize w cfg params s1")
          note log2 = standardize_log [OF std]
          from log1(1) log2(1) have since2: "sent_since s s2 = sent_since s s1 @ sent_since s1 s2"
            and out2: "outbound s2 = outbound s @ sent_since s s2"
            by (rule sent_since_chain)+
          from log1(1) log2(1) have ex2: "exchanges w s s2 = exchanges w s s1 @ exchanges w s1 s2"
            by (rule exchanges_chain)
          have upd2: "\<forall>rq \<in> set (sent_since s s2). \<not> is_update rq"
            using log1(2) log2(2) by (auto simp: since2)
          have gets2: "\<forall>hs p. Get uspsAddressUrl hs p \<in> set (sent_since s s2) \<longrightarrow> p = params"
            using noget1 log2(3) by (auto simp: since2)
          have rej2: "\<forall>rq err. (rq, Inl err) \<in> set (exchanges w s s2) \<longrightarrow> d = Inl err"
            using accepted1 log2(5) by (auto simp: ex2)
          have noget2: "\<forall>hs p out. (Get (contactUrl cfg recordId) hs p, out) \<notin> set (exchanges w s1 s2)"
          proof (intro allI notI)
            fix hs p out
            assume "(Get (contactUrl cfg recordId) hs p, out) \<in> set (exchanges w s1 s2)"
            then have "Get (contactUrl cfg recordId) hs p \<in> set (sent_since s1 s2)"
              by (rule in_exchanges_sent)
            with log2(3) have "contactUrl cfg recordId = uspsAddressUrl" by blast
            then show False by (simp add: contactUrl_not_usps)
          qed
          have get2: "\<forall>hs p err. (Get (contactUrl cfg recordId) hs p, Inl err) \<notin> set (exchanges w s s2)"
            using accepted1 noget2 by (auto simp: ex2)
          have first2: "\<forall>rq err. hd (exchanges w s s2) \<noteq> (rq, Inl err)"
            using accepted1 nonempty1 by (auto simp: ex2 dest: hd_in_set)
          show ?thesis
          proof (cases d)
            case (Inl err)
            with fetch contact params False std assms have stop: "s' = s2" and r: "r = Inl err"
              by (simp_all add: try_block_def)
            have par: "\<forall>hs p. Get uspsAddressUrl hs p \<in> set (sent_since s s2) \<longrightarrow>
              (\<exists>contact token.
                 (Get (contactUrl cfg recordId) [(''OAuth-Token'', Raw token)] JUndefined, Inr contact)
                   \<in> set (exchanges w s s2) \<and>
                 fst (getSugarContact w cfg recordId s) = Inr contact \<and>
                 build_params contact = Inr p)"
            proof (intro allI impI)
              fix hs p assume "Get uspsAddressUrl hs p \<in> set (sent_since s s2)"
              with gets2 have "p = params" by blast
              with raw fetched params show "\<exists>contact token.
                 (Get (contactUrl cfg recordId) [(''OAuth-Token'', Raw token)] JUndefined, Inr contact)
                   \<in> set (exchanges w s s2) \<and>
                 fst (getSugarContact w cfg recordId s) = Inr contact \<and>
                 build_params contact = Inr p"
                by (intro exI [of _ contact] exI [of _ token]) (simp add: ex2)
            qed
            from out2 rej2 upd2 par get2 first2 Inl r show ?thesis
              unfolding stop by simp
          next
            case data: (Inr data)
            with fetch contact params False std assms
            have wb: "write_back w cfg recordId data s2 = (r, s')"
              by (simp add: try_block_def)
            note log3 = write_back_log [OF wb]
            from out2 log3(1) have since3: "sent_since s s' = sent_since s s2 @ sent_since s2 s'"
              and out3: "outbound s' = outbound s @ sent_since s s'"
              by (rule sent_since_chain)+
            from out2 log3(1) have ex3: "exchanges w s s' = exchanges w s s2 @ exchanges w s2 s'"
              by (rule exchanges_chain)
            from data rej2 have accepted2: "\<forall>rq err. (rq, Inl err) \<notin> set (exchanges w s s2)"
              by auto
            from upd2 have nofilter: "filter is_update (sent_since s s2) = []"
              by (simp add: filter_empty_conv)
            have a: ?rej
              using accepted2 log3(5) by (auto simp: ex3)
            have b: ?upd
            proof (intro ballI impI)
              fix rq assume "rq \<in> set (sent_since s s')" "is_update rq"
              with upd2 have "rq \<in> set (sent_since s2 s')" by (auto simp: since3)
              with log3(3) \<open>is_update rq\<close> obtain update token
                where "build_update (own_prop data ''address'') = Inr update"
                  and "rq = Put (contactUrl cfg recordId) update [(''OAuth-Token'', Raw token)]"
                by blast
              then show "\<exists>corrected update token. build_update corrected = Inr update \<and>
                 rq = Put (contactUrl cfg recordId) update [(''OAuth-Token'', Raw token)]"
                by (intro exI conjI)
            qed
            have c: ?par
            proof (intro allI impI)
              fix hs p assume "Get uspsAddressUrl hs p \<in> set (sent_since s s')"
              with log3(6) have "Get uspsAddressUrl hs p \<in> set (sent_since s s2)"
                by (simp add: since3)
              with gets2 have "p = params" by blast
              with raw fetched params show "\<exists>contact token.
                 (Get (contactUrl cfg recordId) [(''OAuth-Token'', Raw token)] JUndefined, Inr contact)
                   \<in> set (exchanges w s s') \<and>
                 fst (getSugarContact w cfg recordId s) = Inr contact \<and>
                 build_params contact = Inr p"
                by (intro exI [of _ contact] exI [of _ token]) (simp add: ex2 ex3)
            qed
            have d: ?one
              using log3(4) nofilter by (simp add: since3)
            have noget3: "\<forall>hs p out. (Get (contactUrl cfg recordId) hs p, out) \<notin> set (exchanges w s2 s')"
              using log3(6) by (auto dest: in_exchanges_sent)
            have e: ?get
              using get2 noget3 by (auto simp: ex3)
            have f: ?first
              using accepted2 nonempty1 by (auto simp: ex2 ex3 dest: hd_in_set)
            from out3 a b c d e f show ?thesis by simp
          qed
        qed
      qed
    qed
  qed
  then show "outbound s' = outbound s @ sent_since s s'"
    and "\<forall>rq err. (rq, Inl err) \<in> set (exchanges w s s') \<longrightarrow> r = Inl err"
    and "\<forall>rq \<in> set (sent_since s s'). is_update rq \<longrightarrow>
            (\<exists>corrected update token. build_update corrected = Inr update \<and>
               rq = Put (contactUrl cfg recordId) update [(''OAuth-Token'', Raw token)])"
    and "\<forall>hs p. Get uspsAddressUrl hs p \<in> set (sent_since s s') \<longrightarrow>
            (\<exists>contact token.
               (Get (contactUrl cfg recordId) [(''OAuth-Token'', Raw token)] JUndefined, Inr contact)
                 \<in> set (exchanges w s s') \<and>
               fst (getSugarContact w cfg recordId s) = Inr contact \<and>
               build_params contact = Inr p)"
    and "\<forall>res. r = Inr res \<and> status res = 200 \<longrightarrow>
            length (filter is_update (sent_since s s')) = 1"
    and "\<forall>hs p err. (Get (contactUrl cfg recordId) hs p, Inl err) \<in> set (exchanges w s s') \<longrightarrow>
            (\<forall>rq \<in> set (sent_since s s'). \<not> is_postal rq \<and> \<not> is_update rq)"
    and "\<forall>rq err. exchanges w s s' \<noteq> [] \<and> hd (exchanges w s s') = (rq, Inl err) \<longrightarrow>
            (\<forall>rq \<in> set (sent_since s s'). \<not> is_postal rq \<and> \<not> is_update rq)"
    by simp_all
qed

text \<open>The handler once \<^verbatim>\<open>record_id\<close> passes the test: the \<^verbatim>\<open>try\<close> and its \<^verbatim>\<open>catch\<close>.\<close>

lemma validate_truthy:
  "query_truthy recordId \<Longrightarrow>
   validate w cfg (Some recordId) s =
     (case try_block w cfg recordId s of
        (Inr res, s1) \<Rightarrow> (res, s1)
      | (Inl err, s1) \<Rightarrow>
          (\<lparr>status = 500,
            body = ''<h3>Address validation failed</h3><pre>'' @ message err @ ''</pre>''\<rparr>, s1))"
  by (simp add: validate_def)

text \<open>A run of the handler either stops at the test of \<^verbatim>\<open>record_id\<close> or is the \<^verbatim>\<open>try\<close> block.\<close>

lemma validate_cases:
  assumes "validate w cfg record_id s = (res, s')"
  obtains (missing) "s' = s" "status res = 400"
        | (tried) recordId r where "record_id = Some recordId" "query_truthy recordId"
            "try_block w cfg recordId s = (r, s')"
            "r = Inr res \<or>
             (\<exists>err. r = Inl err \<and>
                res = \<lparr>status = 500,
                       body = ''<h3>Address validation failed</h3><pre>'' @ message err @ ''</pre>''\<rparr>)"
proof (cases record_id)
  case None
  with assms have "s' = s" "status res = 400" by (auto simp: validate_def)
  then show ?thesis by (rule missing)
next
  case (Some recordId)
  show ?thesis
  proof (cases "query_truthy recordId")
    case False
    with Some assms have "s' = s" "status res = 400" by (auto simp: validate_def)
    then show ?thesis by (rule missing)
  next
    case True
    obtain r t where tb: "try_block w cfg recordId s = (r, t)"
      by (cases "try_block w cfg recordId s")
    with True Some assms have "t = s'"
      "r = Inr res \<or>
       (\<exists>err. r = Inl err \<and>
          res = \<lparr>status = 500,
                 body = ''<h3>Address validation failed</h3><pre>'' @ message err @ ''</pre>''\<rparr>)"
      by (cases r; auto simp: validate_truthy)+
    with tb Some True show ?thesis by (auto intro: tried)
  qed
qed

section \<open>Example runs\<close>

text \<open>Unfolding the program and the example data, for the concrete runs.\<close>

lemmas handler_defs =
  validate_def try_block_def getSugarContact_def getSugarAuthToken_def standardize_def
  getUSPSAccessToken_def write_back_def updateSugarContact_def build_params_def build_update_def
  missing_required_def js_or_def Let_def send_def

lemmas example_defs =
  initial_def scenario_def example_clock_def example_grant_def example_usps_grant_def
  example_cfg_def example_contact_def example_standardized_def example_token_request_def
  example_params_def example_update_def example_requests_def example_after_def
  example_incomplete_def

text \<open>
  Record 123 has a complete address and every endpoint answers: the token is fetched and
  cached, the contact read, the address standardized, the contact updated with the token
  from the cache.
\<close>

lemma example_run:
  "validate example_world example_cfg (Some (QString ''123'')) initial =
     (\<lparr>status = 200, body = ''<h3>Address validated and updated for Contact ID: 123</h3>''\<rparr>,
      example_after ''123'' 2 5)"
  by (simp add: handler_defs example_defs example_world_def example_arith)

lemma example_run_exchanges:
  "exchanges example_world initial (example_after ''123'' 2 5) =
     zip (example_requests ''123'')
       [Inr example_grant, Inr example_contact, Inr example_usps_grant, Inr example_standardized,
        Inr JNull]"
  by (simp add: exchanges_def sent_since_def example_world_def example_defs)


lemma example_build_params: "build_params example_contact = Inr example_params"
  by (simp add: build_params_def example_contact_def example_params_def js_or_def)

lemma example_complete: "\<not> missing_required example_params"
  by (simp add: missing_required_def example_params_def)




text \<open>
  Record 456 has an empty state: the token and the contact are fetched, and the postal
  endpoints, which would refuse, are never asked.
\<close>

lemma example_incomplete_fetch:
  "getSugarContact example_incomplete_world example_cfg (QString ''456'') initial =
     (Inr example_incomplete, example_after ''456'' 1 2)"
  by (simp add: handler_defs example_defs example_incomplete_world_def example_arith)

text \<open>
  The runs in which one request is rejected: the CRM token request, the read of the
  contact, the postal token request, the standardization request, the update.
\<close>

lemma example_no_crm_token_run:
  "validate example_no_crm_token_world example_cfg (Some (QString ''123'')) initial =
     (\<lparr>status = 500,
       body = ''<h3>Address validation failed</h3><pre>Request failed with status code 401</pre>''\<rparr>,
      \<lparr>cachedSugarToken = JNull, sugarTokenExpiresAt = JNum (Finite 0), clockReads = 1,
       outbound = [example_token_request]\<rparr>)"
  by (simp add: handler_defs example_defs example_no_crm_token_world_def example_unauthorized_def
      example_arith)

lemma example_not_found_run:
  "validate example_not_found_world example_cfg (Some (QString ''999'')) initial =
     (\<lparr>status = 500,
       body = ''<h3>Address validation failed</h3><pre>Request failed with status code 404</pre>''\<rparr>,
      example_after ''999'' 1 2)"
  by (simp add: handler_defs example_defs example_not_found_world_def example_not_found_def
      example_arith)

lemma example_no_usps_token_run:
  "validate example_no_usps_token_world example_cfg (Some (QString ''123'')) initial =
     (\<lparr>status = 500,
       body = ''<h3>Address validation failed</h3><pre>Request failed with status code 401</pre>''\<rparr>,
      example_after ''123'' 1 3)"
  by (simp add: handler_defs example_defs example_no_usps_token_world_def example_unauthorized_def
      example_arith)

lemma example_unresolvable_run:
  "validate example_unresolvable_world example_cfg (Some (QString ''123'')) initial =
     (\<lparr>status = 500,
       body = ''<h3>Address validation failed</h3><pre>Request failed with status code 400</pre>''\<rparr>,
      example_after ''123'' 1 4)"
  by (simp add: handler_defs example_defs example_unresolvable_world_def example_bad_request_def
      example_arith)

lemma example_no_update_run:
  "validate example_no_update_world example_cfg (Some (QString ''123'')) initial =
     (\<lparr>status = 500,
       body = ''<h3>Address validation failed</h3><pre>Request failed with status code 503</pre>''\<rparr>,
      example_after ''123'' 2 5)"
  by (simp add: handler_defs example_defs example_no_update_world_def example_unavailable_def
      example_arith)

text \<open>
  The postal service answers 200 with an empty object: the read of a field of the absent
  address throws.
\<close>

lemma example_no_address_fetch:
  "getSugarContact example_no_address_world example_cfg (QString ''123'') initial =
     (Inr example_contact, example_after ''123'' 1 2)"
  by (simp add: handler_defs example_defs example_no_address_world_def example_arith)

lemma example_no_address_standardize:
  "standardize example_no_address_world example_cfg example_params (example_after ''123'' 1 2) =
     (Inr (JObj []), example_after ''123'' 1 4)"
  by (simp add: handler_defs example_defs example_no_address_world_def)

lemma example_no_address_run:
  "validate example_no_address_world example_cfg (Some (QString ''123'')) initial =
     (\<lparr>status = 500,
       body = ''<h3>Address validation failed</h3><pre>''
              @ message (cannot_read ''undefined'' ''streetAddressAbbreviation'') @ ''</pre>''\<rparr>,
      example_after ''123'' 1 4)"
  by (simp add: handler_defs example_defs example_no_address_world_def example_arith)

text \<open>
  \<^verbatim>\<open>?record_id[]=\<close> and \<^verbatim>\<open>?record_id=&record_id=\<close>: the handler receives an array of empty
  strings, which is truthy, and runs to the end for the identifiers \<^verbatim>\<open>''\<close> and \<^verbatim>\<open>,\<close>.
\<close>

lemma example_bracketed_run:
  "validate example_world example_cfg (Some (QArray [QString []])) initial =
     (\<lparr>status = 200, body = ''<h3>Address validated and updated for Contact ID: </h3>''\<rparr>,
      example_after [] 2 5)"
  by (simp add: handler_defs example_defs example_world_def example_arith)

lemma example_repeated_run:
  "validate example_world example_cfg (Some (QArray [QString [], QString []])) initial =
     (\<lparr>status = 200, body = ''<h3>Address validated and updated for Contact ID: ,</h3>''\<rparr>,
      example_after '','' 2 5)"
  by (simp add: handler_defs example_defs example_world_def example_arith)
section \<open>The claims about the handler\<close>

text \<open>
  C2, as the code has it. A request whose \<^verbatim>\<open>record_id\<close> is absent or the empty string is
  answered with status 400 and the body \<^verbatim>\<open>Missing record_id\<close>; the state is the one
  before the request, so nothing was sent.
\<close>

theorem validate_missing_record_id:
  assumes "record_id = None \<or> record_id = Some (QString [])"
  shows "validate w cfg record_id s = (\<lparr>status = 400, body = ''Missing record_id''\<rparr>, s)
         \<and> sent_since s (snd (validate w cfg record_id s)) = []"
  using assms by (auto simp: validate_def sent_since_def)

theorem validate_missing_record_id_witness:
  "validate example_world example_cfg None initial =
     (\<lparr>status = 400, body = ''Missing record_id''\<rparr>, initial)
   \<and> validate example_world example_cfg (Some (QString [])) initial =
     (\<lparr>status = 400, body = ''Missing record_id''\<rparr>, initial)
   \<and> outbound initial = []"
  using validate_missing_record_id [of None example_world example_cfg initial]
    validate_missing_record_id [of "Some (QString [])" example_world example_cfg initial]
  by (simp add: initial_def)

text \<open>
  C2, as it is stated, fails where the parameter is there with nothing but empty values:
  for \<^verbatim>\<open>?record_id[]=\<close> and for \<^verbatim>\<open>?record_id=&record_id=\<close> the handler does not answer 400;
  it sends its five requests and answers 200.
\<close>

theorem validate_empty_values_counterexample:
  "query_string (QArray [QString []]) = []
   \<and> fst (validate example_world example_cfg (Some (QArray [QString []])) initial) =
       \<lparr>status = 200, body = ''<h3>Address validated and updated for Contact ID: </h3>''\<rparr>
   \<and> length (sent_since initial
        (snd (validate example_world example_cfg (Some (QArray [QString []])) initial))) = 5
   \<and> fst (validate example_world example_cfg (Some (QArray [QString [], QString []])) initial) =
       \<lparr>status = 200, body = ''<h3>Address validated and updated for Contact ID: ,</h3>''\<rparr>
   \<and> length (sent_since initial
        (snd (validate example_world example_cfg (Some (QArray [QString [], QString []])) initial))) = 5"
proof -
  have fresh: "outbound initial = []" by (simp add: initial_def)
  show ?thesis
    by (simp add: example_bracketed_run example_repeated_run sent_since_def fresh
        example_after_def example_requests_def)
qed

text \<open>
  C3. When the contact was fetched and one of street, city, state and postal code is the
  empty string in the parameters extracted from it (the secondary address may be empty),
  the answer is status 400 with the body \<^verbatim>\<open>Missing one or more required address fields\<close>;
  the read of the contact is among the requests sent and no request went to a postal
  endpoint.
\<close>

theorem validate_missing_fields:
  assumes "query_truthy recordId"
      and "getSugarContact w cfg recordId s = (Inr contact, s1)"
      and "build_params contact = Inr params"
      and "own_prop params ''streetAddress'' = JStr [] \<or> own_prop params ''city'' = JStr [] \<or>
           own_prop params ''state'' = JStr [] \<or> own_prop params ''ZIPCode'' = JStr []"
  shows "validate w cfg (Some recordId) s =
           (\<lparr>status = 400, body = ''Missing one or more required address fields''\<rparr>, s1)
         \<and> (\<exists>headers. Get (contactUrl cfg recordId) headers JUndefined \<in> set (sent_since s s1))
         \<and> (\<forall>rq \<in> set (sent_since s s1). \<not> is_postal rq)"
proof -
  from assms(4) have "missing_required params"
    by (auto simp: missing_required_def)
  with assms(1-3) have run: "validate w cfg (Some recordId) s =
           (\<lparr>status = 400, body = ''Missing one or more required address fields''\<rparr>, s1)"
    by (simp add: validate_truthy try_block_def)
  note log = getSugarContact_log [OF assms(2)]
  from log(4) obtain token where
    "(Get (contactUrl cfg recordId) [(''OAuth-Token'', Raw token)] JUndefined, Inr contact)
       \<in> set (exchanges w s s1)"
    by blast
  then have "Get (contactUrl cfg recordId) [(''OAuth-Token'', Raw token)] JUndefined
               \<in> set (sent_since s s1)"
    by (rule in_exchanges_sent)
  then have "\<exists>headers. Get (contactUrl cfg recordId) headers JUndefined \<in> set (sent_since s s1)"
    by (rule exI)
  with run log(2) show ?thesis by simp
qed

theorem validate_missing_fields_witness:
  "query_truthy (QString ''456'')
   \<and> getSugarContact example_incomplete_world example_cfg (QString ''456'') initial =
       (Inr example_incomplete, example_after ''456'' 1 2)
   \<and> build_params example_incomplete =
       Inr (JObj [(''streetAddress'', JStr ''9 Elm Road''), (''secondaryAddress'', JStr ''Apt 4''),
                  (''city'', JStr ''Dover''), (''state'', JStr []), (''ZIPCode'', JStr ''19901'')])
   \<and> validate example_incomplete_world example_cfg (Some (QString ''456'')) initial =
       (\<lparr>status = 400, body = ''Missing one or more required address fields''\<rparr>,
        example_after ''456'' 1 2)
   \<and> sent_since initial (example_after ''456'' 1 2) =
       [example_token_request,
        Get ''https://crm.example.com/rest/v11_10/Contacts/456''
          [(''OAuth-Token'', Raw (JStr ''crm-token''))] JUndefined]"
proof -
  have params: "build_params example_incomplete =
       Inr (JObj [(''streetAddress'', JStr ''9 Elm Road''), (''secondaryAddress'', JStr ''Apt 4''),
                  (''city'', JStr ''Dover''), (''state'', JStr []), (''ZIPCode'', JStr ''19901'')])"
    by (simp add: build_params_def example_incomplete_def js_or_def)
  have rid: "query_truthy (QString ''456'')" by simp
  have sent: "sent_since initial (example_after ''456'' 1 2) =
       [example_token_request,
        Get ''https://crm.example.com/rest/v11_10/Contacts/456''
          [(''OAuth-Token'', Raw (JStr ''crm-token''))] JUndefined]"
    by (simp add: sent_since_def initial_def example_after_def example_requests_def)
  from validate_missing_fields [OF rid example_incomplete_fetch params] params sent
    example_incomplete_fetch
  show ?thesis by simp
qed

text \<open>
  C4. In a run that passed the test of \<^verbatim>\<open>record_id\<close>: when any request of the run was
  rejected, whichever it was (the CRM token, the read of the contact, the postal token,
  the standardization, the update), the answer is status 500 with the body
  \<^verbatim>\<open><h3>Address validation failed</h3><pre>\<close>, the message of that rejection, \<^verbatim>\<open></pre>\<close>;
  the same holds for anything else the \<^verbatim>\<open>try\<close> block throws. When the read of the
  contact was rejected, or the first request of the run was, no request went to a postal
  endpoint and no update was sent.
\<close>

theorem validate_failure:
  assumes "query_truthy recordId"
      and "validate w cfg (Some recordId) s = (res, s')"
  shows "(\<forall>rq err. (rq, Inl err) \<in> set (exchanges w s s') \<longrightarrow>
            res = \<lparr>status = 500,
                   body = ''<h3>Address validation failed</h3><pre>'' @ message err @ ''</pre>''\<rparr>)
       \<and> (\<forall>thrown. fst (try_block w cfg recordId s) = Inl thrown \<longrightarrow>
            res = \<lparr>status = 500,
                   body = ''<h3>Address validation failed</h3><pre>'' @ message thrown @ ''</pre>''\<rparr>)
       \<and> (\<forall>hs p err. (Get (contactUrl cfg recordId) hs p, Inl err) \<in> set (exchanges w s s') \<longrightarrow>
            (\<forall>rq \<in> set (sent_since s s'). \<not> is_postal rq \<and> \<not> is_update rq))
       \<and> (\<forall>rq err. exchanges w s s' \<noteq> [] \<and> hd (exchanges w s s') = (rq, Inl err) \<longrightarrow>
            (\<forall>rq \<in> set (sent_since s s'). \<not> is_postal rq \<and> \<not> is_update rq))"
proof -
  obtain r t where tb: "try_block w cfg recordId s = (r, t)"
    by (cases "try_block w cfg recordId s")
  with assms have t: "t = s'"
    by (cases r) (simp_all add: validate_truthy)
  from tb assms have caught: "\<forall>err. r = Inl err \<longrightarrow>
      res = \<lparr>status = 500,
             body = ''<h3>Address validation failed</h3><pre>'' @ message err @ ''</pre>''\<rparr>"
    by (cases r) (auto simp: validate_truthy)
  note log = try_block_log [OF tb [unfolded t]]
  from log(2) caught have a: "\<forall>rq err. (rq, Inl err) \<in> set (exchanges w s s') \<longrightarrow>
            res = \<lparr>status = 500,
                   body = ''<h3>Address validation failed</h3><pre>'' @ message err @ ''</pre>''\<rparr>"
    by blast
  from tb caught have b: "\<forall>thrown. fst (try_block w cfg recordId s) = Inl thrown \<longrightarrow>
            res = \<lparr>status = 500,
                   body = ''<h3>Address validation failed</h3><pre>'' @ message thrown @ ''</pre>''\<rparr>"
    by simp
  from a b log(6) log(7) show ?thesis by (intro conjI)
qed

text \<open>
  Five runs, each with one rejected request: the CRM token request (401), the read of
  the contact (404), the postal token request (401), the standardization request (400),
  the update (503). Each is answered 500 with the message of the rejection; after the 404
  only the token request and the read were sent.
\<close>

theorem validate_failure_witness:
  "query_truthy (QString ''123'') \<and> query_truthy (QString ''999'')
   \<and> (example_token_request, Inl example_unauthorized)
        \<in> set (exchanges example_no_crm_token_world initial
                 \<lparr>cachedSugarToken = JNull, sugarTokenExpiresAt = JNum (Finite 0), clockReads = 1,
                  outbound = [example_token_request]\<rparr>)
   \<and> validate example_no_crm_token_world example_cfg (Some (QString ''123'')) initial =
       (\<lparr>status = 500,
         body = ''<h3>Address validation failed</h3><pre>Request failed with status code 401</pre>''\<rparr>,
        \<lparr>cachedSugarToken = JNull, sugarTokenExpiresAt = JNum (Finite 0), clockReads = 1,
         outbound = [example_token_request]\<rparr>)
   \<and> (Get (contactUrl example_cfg (QString ''999'')) [(''OAuth-Token'', Raw (JStr ''crm-token''))] JUndefined,
        Inl example_not_found)
        \<in> set (exchanges example_not_found_world initial (example_after ''999'' 1 2))
   \<and> validate example_not_found_world example_cfg (Some (QString ''999'')) initial =
       (\<lparr>status = 500,
         body = ''<h3>Address validation failed</h3><pre>Request failed with status code 404</pre>''\<rparr>,
        example_after ''999'' 1 2)
   \<and> sent_since initial (example_after ''999'' 1 2) =
       [example_token_request,
        Get ''https://crm.example.com/rest/v11_10/Contacts/999''
          [(''OAuth-Token'', Raw (JStr ''crm-token''))] JUndefined]
   \<and> (example_requests ''123'' ! 2, Inl example_unauthorized)
        \<in> set (exchanges example_no_usps_token_world initial (example_after ''123'' 1 3))
   \<and> validate example_no_usps_token_world example_cfg (Some (QString ''123'')) initial =
       (\<lparr>status = 500,
         body = ''<h3>Address validation failed</h3><pre>Request failed with status code 401</pre>''\<rparr>,
        example_after ''123'' 1 3)
   \<and> (example_requests ''123'' ! 3, Inl example_bad_request)
        \<in> set (exchanges example_unresolvable_world initial (example_after ''123'' 1 4))
   \<and> validate example_unresolvable_world example_cfg (Some (QString ''123'')) initial =
       (\<lparr>status = 500,
         body = ''<h3>Address validation failed</h3><pre>Request failed with status code 400</pre>''\<rparr>,
        example_after ''123'' 1 4)
   \<and> (example_requests ''123'' ! 4, Inl example_unavailable)
        \<in> set (exchanges example_no_update_world initial (example_after ''123'' 2 5))
   \<and> validate example_no_update_world example_cfg (Some (QString ''123'')) initial =
       (\<lparr>status = 500,
         body = ''<h3>Address validation failed</h3><pre>Request failed with status code 503</pre>''\<rparr>,
        example_after ''123'' 2 5)"
proof -
  have rid: "query_truthy (QString ''123'')" "query_truthy (QString ''999'')" by simp_all
  have fresh: "outbound initial = []" by (simp add: initial_def)
  have e1: "(example_token_request, Inl example_unauthorized)
        \<in> set (exchanges example_no_crm_token_world initial
                 \<lparr>cachedSugarToken = JNull, sugarTokenExpiresAt = JNum (Finite 0), clockReads = 1,
                  outbound = [example_token_request]\<rparr>)"
    by (simp add: exchanges_def sent_since_def fresh example_no_crm_token_world_def scenario_def
        example_token_request_def)
  have e2: "(Get (contactUrl example_cfg (QString ''999'')) [(''OAuth-Token'', Raw (JStr ''crm-token''))]
               JUndefined, Inl example_not_found)
        \<in> set (exchanges example_not_found_world initial (example_after ''999'' 1 2))"
    by (simp add: exchanges_def sent_since_def fresh example_not_found_world_def scenario_def
        example_token_request_def example_after_def example_requests_def contactUrl_def
        example_cfg_def)
  have s2: "sent_since initial (example_after ''999'' 1 2) =
       [example_token_request,
        Get ''https://crm.example.com/rest/v11_10/Contacts/999''
          [(''OAuth-Token'', Raw (JStr ''crm-token''))] JUndefined]"
    by (simp add: sent_since_def fresh example_after_def example_requests_def)
  have e3: "(example_requests ''123'' ! 2, Inl example_unauthorized)
        \<in> set (exchanges example_no_usps_token_world initial (example_after ''123'' 1 3))"
    by (simp add: exchanges_def sent_since_def fresh example_no_usps_token_world_def scenario_def
        example_token_request_def example_after_def example_requests_def)
  have e4: "(example_requests ''123'' ! 3, Inl example_bad_request)
        \<in> set (exchanges example_unresolvable_world initial (example_after ''123'' 1 4))"
    by (simp add: exchanges_def sent_since_def fresh example_unresolvable_world_def scenario_def
        example_token_request_def example_after_def example_requests_def)
  have e5: "(example_requests ''123'' ! 4, Inl example_unavailable)
        \<in> set (exchanges example_no_update_world initial (example_after ''123'' 2 5))"
    by (simp add: exchanges_def sent_since_def fresh example_no_update_world_def scenario_def
        example_token_request_def example_after_def example_requests_def)
  from validate_failure [OF rid(1) example_no_crm_token_run]
    validate_failure [OF rid(2) example_not_found_run]
    validate_failure [OF rid(1) example_no_usps_token_run]
    validate_failure [OF rid(1) example_unresolvable_run]
    validate_failure [OF rid(1) example_no_update_run]
    e1 e2 s2 e3 e4 e5
    example_no_crm_token_run example_not_found_run example_no_usps_token_run
    example_unresolvable_run example_no_update_run
  show ?thesis by simp
qed



text \<open>
  C6. Each of the five parameters of a request sent to the standardization endpoint is the
  field of the contact when that is truthy and the empty string otherwise, where the
  contact is the data the CRM answered this run's read of the contact with, and is what
  \<^verbatim>\<open>getSugarContact\<close> returned, with nothing substituted yet: a field that is \<^verbatim>\<open>undefined\<close> or
  \<^verbatim>\<open>null\<close> there is the empty string in the request, no parameter is \<^verbatim>\<open>undefined\<close> or \<^verbatim>\<open>null\<close>,
  and the parameters sent are the object built from the contact in lines 86 to 92.
\<close>

theorem params_never_absent:
  assumes "validate w cfg (Some recordId) s = (res, s')"
      and "Get uspsAddressUrl headers params \<in> set (sent_since s s')"
  shows "\<exists>contact token.
           (Get (contactUrl cfg recordId) [(''OAuth-Token'', Raw token)] JUndefined, Inr contact)
             \<in> set (exchanges w s s') \<and>
           fst (getSugarContact w cfg recordId s) = Inr contact \<and>
           build_params contact = Inr params \<and>
           (\<exists>kvs. params = JObj kvs \<and>
              map fst kvs = [''streetAddress'', ''secondaryAddress'', ''city'', ''state'', ''ZIPCode'']) \<and>
           (\<forall>(name, field) \<in> set [(''streetAddress'', ''primary_address_street''),
                                    (''secondaryAddress'', ''mailing_address_2_c''),
                                    (''city'', ''primary_address_city''),
                                    (''state'', ''primary_address_state''),
                                    (''ZIPCode'', ''primary_address_postalcode'')].
              own_prop params name =
                (if truthy (own_prop contact field) then own_prop contact field else JStr []) \<and>
              (own_prop contact field = JUndefined \<or> own_prop contact field = JNull \<longrightarrow>
                 own_prop params name = JStr []) \<and>
              own_prop params name \<noteq> JUndefined \<and> own_prop params name \<noteq> JNull)"
  using assms(1)
proof (cases rule: validate_cases)
  case missing
  with assms(2) show ?thesis by (simp add: sent_since_def)
next
  case (tried recordId' r)
  then have tb: "try_block w cfg recordId s = (r, s')" by simp
  from try_block_log(4) [OF tb]
  have "Get uspsAddressUrl headers params \<in> set (sent_since s s') \<longrightarrow>
            (\<exists>contact token.
               (Get (contactUrl cfg recordId) [(''OAuth-Token'', Raw token)] JUndefined, Inr contact)
                 \<in> set (exchanges w s s') \<and>
               fst (getSugarContact w cfg recordId s) = Inr contact \<and>
               build_params contact = Inr params)"
    by (elim allE)
  with assms(2) obtain contact token
    where raw: "(Get (contactUrl cfg recordId) [(''OAuth-Token'', Raw token)] JUndefined, Inr contact)
                  \<in> set (exchanges w s s')"
      and fetched: "fst (getSugarContact w cfg recordId s) = Inr contact"
      and built: "build_params contact = Inr params"
    by auto
  note shape = build_params_Inr(1) [OF built]
  have keys: "\<exists>kvs. params = JObj kvs \<and>
              map fst kvs = [''streetAddress'', ''secondaryAddress'', ''city'', ''state'', ''ZIPCode'']"
    unfolding shape by simp
  have each: "\<forall>(name, field) \<in> set [(''streetAddress'', ''primary_address_street''),
                                    (''secondaryAddress'', ''mailing_address_2_c''),
                                    (''city'', ''primary_address_city''),
                                    (''state'', ''primary_address_state''),
                                    (''ZIPCode'', ''primary_address_postalcode'')].
              own_prop params name =
                (if truthy (own_prop contact field) then own_prop contact field else JStr []) \<and>
              (own_prop contact field = JUndefined \<or> own_prop contact field = JNull \<longrightarrow>
                 own_prop params name = JStr []) \<and>
              own_prop params name \<noteq> JUndefined \<and> own_prop params name \<noteq> JNull"
    unfolding shape by (simp add: js_or_empty(2-4) js_or_empty(1) [symmetric])
  from raw fetched built keys each show ?thesis
    by - (rule exI [of _ contact], rule exI [of _ token], intro conjI, assumption+)
qed

theorem params_never_absent_witness:
  "validate example_world example_cfg (Some (QString ''123'')) initial =
     (\<lparr>status = 200, body = ''<h3>Address validated and updated for Contact ID: 123</h3>''\<rparr>,
      example_after ''123'' 2 5)
   \<and> Get uspsAddressUrl
        [(''Authorization'', Bearer (JStr ''usps-token'')), (''Accept'', Raw (JStr ''application/json''))]
        example_params \<in> set (sent_since initial (example_after ''123'' 2 5))
   \<and> (Get (contactUrl example_cfg (QString ''123'')) [(''OAuth-Token'', Raw (JStr ''crm-token''))] JUndefined,
        Inr example_contact) \<in> set (exchanges example_world initial (example_after ''123'' 2 5))
   \<and> build_params example_contact = Inr example_params
   \<and> own_prop example_contact ''mailing_address_2_c'' = JUndefined
   \<and> own_prop example_params ''secondaryAddress'' = JStr []
   \<and> own_prop example_params ''city'' = own_prop example_contact ''primary_address_city''
   \<and> build_params (JObj [(''primary_address_street'', JNum (Finite 0)),
                          (''mailing_address_2_c'', JNull),
                          (''primary_address_city'', JBool False),
                          (''primary_address_state'', JNum NaN)]) =
       Inr (JObj [(''streetAddress'', JStr []), (''secondaryAddress'', JStr []), (''city'', JStr []),
                  (''state'', JStr []), (''ZIPCode'', JStr [])])"
proof -
  have fresh: "outbound initial = []" by (simp add: initial_def)
  have sent: "Get uspsAddressUrl
        [(''Authorization'', Bearer (JStr ''usps-token'')), (''Accept'', Raw (JStr ''application/json''))]
        example_params \<in> set (sent_since initial (example_after ''123'' 2 5))"
    by (simp add: sent_since_def fresh example_after_def example_requests_def uspsAddressUrl_def)
  have read: "(Get (contactUrl example_cfg (QString ''123'')) [(''OAuth-Token'', Raw (JStr ''crm-token''))]
                 JUndefined, Inr example_contact)
                \<in> set (exchanges example_world initial (example_after ''123'' 2 5))"
    by (simp add: example_run_exchanges example_requests_def contactUrl_def example_cfg_def)
  have falsy: "build_params (JObj [(''primary_address_street'', JNum (Finite 0)),
                          (''mailing_address_2_c'', JNull),
                          (''primary_address_city'', JBool False),
                          (''primary_address_state'', JNum NaN)]) =
       Inr (JObj [(''streetAddress'', JStr []), (''secondaryAddress'', JStr []), (''city'', JStr []),
                  (''state'', JStr []), (''ZIPCode'', JStr [])])"
    by (simp add: build_params_def js_or_def)
  from params_never_absent [OF example_run sent] sent read example_run example_build_params falsy
  show ?thesis
    by (simp add: example_params_def example_contact_def)
qed

text \<open>
  C9. In every run of the handler, an update sent to the CRM has exactly five fields, the
  four primary address fields and the validation status, which is \<^verbatim>\<open>Validated\<close>;
  \<^verbatim>\<open>mailing_address_2_c\<close> is not among them. A run answered with status 200 sent exactly
  one update.
\<close>

theorem update_frame:
  assumes "validate w cfg record_id s = (res, s')"
  shows "(\<forall>url data headers. Put url data headers \<in> set (sent_since s s') \<longrightarrow>
            (\<exists>kvs. data = JObj kvs \<and>
               map fst kvs = [''primary_address_street'', ''primary_address_city'',
                              ''primary_address_state'', ''primary_address_postalcode'',
                              ''address_validation_status_c''] \<and>
               own_prop data ''address_validation_status_c'' = JStr ''Validated'' \<and>
               ''mailing_address_2_c'' \<notin> set (map fst kvs)))
       \<and> (status res = 200 \<longrightarrow> length (filter is_update (sent_since s s')) = 1)"
  using assms
proof (cases rule: validate_cases)
  case missing
  then show ?thesis by (simp add: sent_since_def)
next
  case (tried recordId r)
  note log = try_block_log [OF tried(3)]
  have fields: "\<exists>kvs. data = JObj kvs \<and>
               map fst kvs = [''primary_address_street'', ''primary_address_city'',
                              ''primary_address_state'', ''primary_address_postalcode'',
                              ''address_validation_status_c''] \<and>
               own_prop data ''address_validation_status_c'' = JStr ''Validated'' \<and>
               ''mailing_address_2_c'' \<notin> set (map fst kvs)"
    if sent: "Put url data headers \<in> set (sent_since s s')" for url data headers
  proof -
    have "is_update (Put url data headers)" by simp
    moreover from log(3) sent have "is_update (Put url data headers) \<longrightarrow>
        (\<exists>corrected update token. build_update corrected = Inr update \<and>
        Put url data headers = Put (contactUrl cfg recordId) update [(''OAuth-Token'', Raw token)])"
      by (rule bspec)
    ultimately have "\<exists>corrected update token. build_update corrected = Inr update \<and>
        Put url data headers = Put (contactUrl cfg recordId) update [(''OAuth-Token'', Raw token)]"
      by (rule rev_mp)
    then obtain corrected where built: "build_update corrected = Inr data"
      by auto
    from build_update_Inr [OF built] show ?thesis
      by simp
  qed
  have once: "status res = 200 \<longrightarrow> length (filter is_update (sent_since s s')) = 1"
    using tried(4) log(5) by auto
  show ?thesis
  proof (intro conjI allI impI)
    fix url data headers
    assume "Put url data headers \<in> set (sent_since s s')"
    then show "\<exists>kvs. data = JObj kvs \<and>
               map fst kvs = [''primary_address_street'', ''primary_address_city'',
                              ''primary_address_state'', ''primary_address_postalcode'',
                              ''address_validation_status_c''] \<and>
               own_prop data ''address_validation_status_c'' = JStr ''Validated'' \<and>
               ''mailing_address_2_c'' \<notin> set (map fst kvs)"
      by (rule fields)
  next
    assume "status res = 200"
    with once show "length (filter is_update (sent_since s s')) = 1" by simp
  qed
qed

theorem update_frame_witness:
  "validate example_world example_cfg (Some (QString ''123'')) initial =
     (\<lparr>status = 200, body = ''<h3>Address validated and updated for Contact ID: 123</h3>''\<rparr>,
      example_after ''123'' 2 5)
   \<and> Put ''https://crm.example.com/rest/v11_10/Contacts/123'' example_update
          [(''OAuth-Token'', Raw (JStr ''crm-token''))]
        \<in> set (sent_since initial (example_after ''123'' 2 5))
   \<and> own_prop example_params ''secondaryAddress'' = JStr []
   \<and> own_prop example_update ''mailing_address_2_c'' = JUndefined
   \<and> length (filter is_update (sent_since initial (example_after ''123'' 2 5))) = 1"
proof -
  have fresh: "outbound initial = []" by (simp add: initial_def)
  have sent: "Put ''https://crm.example.com/rest/v11_10/Contacts/123'' example_update
          [(''OAuth-Token'', Raw (JStr ''crm-token''))]
        \<in> set (sent_since initial (example_after ''123'' 2 5))"
    by (simp add: sent_since_def fresh example_after_def example_requests_def)
  from update_frame [OF example_run] sent example_run
  show ?thesis
    by (simp add: example_params_def example_update_def)
qed

text \<open>
  C10. When the standardization request succeeded and its answer has no \<^verbatim>\<open>address\<close>
  (the property is \<^verbatim>\<open>undefined\<close> or \<^verbatim>\<open>null\<close>), the read of a field of the address throws,
  the answer is status 500 with the error's message in the body, and no update of the
  contact is among the requests sent.
\<close>

theorem validate_no_address:
  assumes "query_truthy recordId"
      and "getSugarContact w cfg recordId s = (Inr contact, s1)"
      and "build_params contact = Inr params"
      and "\<not> missing_required params"
      and "standardize w cfg params s1 = (Inr data, s2)"
      and "own_prop data ''address'' = JUndefined \<or> own_prop data ''address'' = JNull"
  shows "(\<exists>err. validate w cfg (Some recordId) s =
            (\<lparr>status = 500,
              body = ''<h3>Address validation failed</h3><pre>'' @ message err @ ''</pre>''\<rparr>, s2))
         \<and> status (fst (validate w cfg (Some recordId) s)) = 500
         \<and> (\<forall>rq \<in> set (sent_since s (snd (validate w cfg (Some recordId) s))). \<not> is_update rq)"
proof -
  have "\<exists>err. write_back w cfg recordId data s2 = (Inl err, s2)"
  proof (cases "get_prop data ''address''")
    case (Inl err)
    then show ?thesis by (simp add: write_back_def)
  next
    case (Inr corrected)
    then have "corrected = own_prop data ''address''" by (simp add: get_prop_Inr)
    with assms(6) have "corrected = JUndefined \<or> corrected = JNull" by simp
    then have "\<exists>err. build_update corrected = Inl err"
      by (auto simp: build_update_def)
    with Inr show ?thesis by (auto simp: write_back_def)
  qed
  then obtain err where "write_back w cfg recordId data s2 = (Inl err, s2)" ..
  with assms(2-5) have "try_block w cfg recordId s = (Inl err, s2)"
    by (simp add: try_block_def)
  with assms(1) have run: "validate w cfg (Some recordId) s =
            (\<lparr>status = 500,
              body = ''<h3>Address validation failed</h3><pre>'' @ message err @ ''</pre>''\<rparr>, s2)"
    by (simp add: validate_truthy)
  note log1 = getSugarContact_log [OF assms(2)]
  note log2 = standardize_log [OF assms(5)]
  from log1(1) log2(1) have "sent_since s s2 = sent_since s s1 @ sent_since s1 s2"
    by (rule sent_since_chain)
  with log1(2) log2(2) have "\<forall>rq \<in> set (sent_since s s2). \<not> is_update rq"
    by auto
  with run show ?thesis by auto
qed

theorem validate_no_address_witness:
  "query_truthy (QString ''123'')
   \<and> standardize example_no_address_world example_cfg example_params (example_after ''123'' 1 2) =
       (Inr (JObj []), example_after ''123'' 1 4)
   \<and> own_prop (JObj []) ''address'' = JUndefined
   \<and> validate example_no_address_world example_cfg (Some (QString ''123'')) initial =
       (\<lparr>status = 500,
         body = ''<h3>Address validation failed</h3><pre>''
                @ message (cannot_read ''undefined'' ''streetAddressAbbreviation'') @ ''</pre>''\<rparr>,
        example_after ''123'' 1 4)
   \<and> message (cannot_read ''undefined'' ''streetAddressAbbreviation'') =
       ''Cannot read properties of undefined (reading '' @ [CHR 0x27] @ ''streetAddressAbbreviation''
       @ [CHR 0x27] @ '')''
   \<and> filter is_update (sent_since initial (example_after ''123'' 1 4)) = []"
proof -
  have rid: "query_truthy (QString ''123'')" by simp
  have absent: "own_prop (JObj []) ''address'' = JUndefined \<or> own_prop (JObj []) ''address'' = JNull"
    by simp
  from validate_no_address [OF rid example_no_address_fetch example_build_params example_complete
      example_no_address_standardize absent] example_no_address_run example_no_address_standardize
  show ?thesis
    by (simp add: filter_empty_conv cannot_read_def)
qed

end
